theory Spec2Isabelle
  imports Main "HOL-Library.Sublist"
begin

section \<open>Text\<close>

text \<open>
  A Python \<^verbatim>\<open>str\<close> is modelled as a \<^typ>\<open>string\<close> over ASCII text, where \<^verbatim>\<open>len\<close> is
  \<^const>\<open>length\<close> and \<^verbatim>\<open>str.lower\<close> maps the letters A to Z to a to z and leaves every
  other character as it is.
\<close>

definition lower_char :: "char \<Rightarrow> char" where
  "lower_char c =
     (case map_of (zip ''ABCDEFGHIJKLMNOPQRSTUVWXYZ'' ''abcdefghijklmnopqrstuvwxyz'') c of
        Some l \<Rightarrow> l
      | None \<Rightarrow> c)"

definition lower :: "string \<Rightarrow> string" where
  "lower s = map lower_char s"

text \<open>
  \<^verbatim>\<open>sub in s\<close> on strings: \<open>sub\<close> occurs in \<open>s\<close> as a contiguous run, found by
  scanning the start positions from left to right.
\<close>

fun str_in :: "string \<Rightarrow> string \<Rightarrow> bool" where
  "str_in sub [] = (sub = [])"
| "str_in sub (c # cs) = (prefix sub (c # cs) \<or> str_in sub cs)"

section \<open>Values, exceptions and the outside world\<close>

text \<open>
  The values that arrive in a request and leave in a response: JSON values as Flask's
  \<^verbatim>\<open>request.json\<close> and \<^verbatim>\<open>jsonify\<close> exchange them (numbers are integers here). Python does
  not check the type of an argument, so a function of the source is a function on these
  values. The fields of an object are the items of the Python dictionary, whose keys are
  distinct.
\<close>

datatype json =
    JNull
  | JBool bool
  | JNum int
  | JStr string
  | JArr "json list"
  | JObj "(string \<times> json) list"

text \<open>Python's truth test \<^verbatim>\<open>if v:\<close>, which is also what \<^verbatim>\<open>not v\<close> and \<^verbatim>\<open>and\<close> decide by.\<close>

fun truthy :: "json \<Rightarrow> bool" where
  "truthy JNull = False"
| "truthy (JBool b) = b"
| "truthy (JNum n) = (n \<noteq> 0)"
| "truthy (JStr s) = (s \<noteq> [])"
| "truthy (JArr xs) = (xs \<noteq> [])"
| "truthy (JObj fs) = (fs \<noteq> [])"

text \<open>\<^verbatim>\<open>type(v).__name__\<close>, as Python's error messages print it.\<close>

fun type_name :: "json \<Rightarrow> string" where
  "type_name JNull = ''NoneType''"
| "type_name (JBool b) = ''bool''"
| "type_name (JNum n) = ''int''"
| "type_name (JStr s) = ''str''"
| "type_name (JArr xs) = ''list''"
| "type_name (JObj fs) = ''dict''"

text \<open>A name between single quotes.\<close>

definition quote :: "string \<Rightarrow> string" where
  "quote name = CHR 0x27 # name @ [CHR 0x27]"

text \<open>
  An instance of Python's \<^verbatim>\<open>Exception\<close> or of a subclass of it, which is what every
  \<^verbatim>\<open>except Exception as e\<close> of the source catches; \<open>message\<close> is \<^verbatim>\<open>str(e)\<close>.
\<close>

datatype exn = Exception (message: string)

text \<open>The \<^verbatim>\<open>AttributeError\<close> of \<^verbatim>\<open>v.name\<close> on a value that has no such attribute.\<close>

definition no_attribute :: "json \<Rightarrow> string \<Rightarrow> exn" where
  "no_attribute v name =
     Exception (quote (type_name v) @ '' object has no attribute '' @ quote name)"

text \<open>
  \<^verbatim>\<open>len(v)\<close>: the length of a string, a list or a dictionary, and a \<^verbatim>\<open>TypeError\<close> for
  \<^verbatim>\<open>None\<close>, a boolean or a number.
\<close>

fun len :: "json \<Rightarrow> exn + nat" where
  "len (JStr s) = Inr (length s)"
| "len (JArr xs) = Inr (length xs)"
| "len (JObj fs) = Inr (length fs)"
| "len v = Inl (Exception (''object of type '' @ quote (type_name v) @ '' has no len()''))"

text \<open>\<^verbatim>\<open>v.lower()\<close>: only a string has the method.\<close>

fun str_lower :: "json \<Rightarrow> exn + string" where
  "str_lower (JStr s) = Inr (lower s)"
| "str_lower v = Inl (no_attribute v ''lower'')"

text \<open>
  The attribute \<^verbatim>\<open>data.get\<close> that a handler looks up on the request body: a dictionary
  has it, and is then read through its items; any other value raises.
\<close>

fun get_method :: "json \<Rightarrow> exn + (string \<times> json) list" where
  "get_method (JObj fs) = Inr fs"
| "get_method v = Inl (no_attribute v ''get'')"

text \<open>\<^verbatim>\<open>data.get(key, default)\<close> on the items of a dictionary.\<close>

definition dict_get :: "(string \<times> json) list \<Rightarrow> string \<Rightarrow> json \<Rightarrow> json" where
  "dict_get fs key dflt = (case map_of fs key of Some v \<Rightarrow> v | None \<Rightarrow> dflt)"

text \<open>
  What a call can read and change besides its arguments: the lines printed to standard
  output, and the state \<open>ext\<close> behind the optional analyzer package (its caches, the
  review site it reads, the network). Every function of the source is a computation on
  this world, so that what it leaves untouched is a theorem and not a matter of its type.
\<close>

record 'w world =
  stdout :: "string list"
  ext :: 'w

definition print :: "string \<Rightarrow> 'w world \<Rightarrow> 'w world" where
  "print line s = s\<lparr>stdout := stdout s @ [line]\<rparr>"

text \<open>A call into the analyzer package runs on the external state only.\<close>

definition call_ext :: "('w \<Rightarrow> 'a \<times> 'w) \<Rightarrow> 'w world \<Rightarrow> 'a \<times> 'w world" where
  "call_ext f s = (case f (ext s) of (r, w') \<Rightarrow> (r, s\<lparr>ext := w'\<rparr>))"

section \<open>ai_service.py\<close>

text \<open>
  The names that \<^verbatim>\<open>ai_service.py\<close> imports from \<^verbatim>\<open>mood_analysis.ai_service_enhanced\<close>.
  The module-level state is a value of type \<open>'w ai_service_enhanced option\<close>: \<open>None\<close> when the
  import raised \<^verbatim>\<open>ImportError\<close> (\<^verbatim>\<open>MOOD_ANALYSIS_AVAILABLE = False\<close>), \<open>Some m\<close> when it
  succeeded. Each imported function either returns or raises, and may depend on and
  change the external state. What it returns is what the specification's interface
  says: a text, a sequence of texts.
\<close>

record 'w ai_service_enhanced =
  generate_enhanced_book_note ::
    "json \<Rightarrow> json \<Rightarrow> json \<Rightarrow> 'w \<Rightarrow> (exn + string) \<times> 'w"
  get_book_mood_tags ::
    "json \<Rightarrow> json \<Rightarrow> 'w \<Rightarrow> (exn + string list) \<times> 'w"

text \<open>
  The tail of \<^verbatim>\<open>generate_book_note\<close> below the comment
  \<^verbatim>\<open># Fallback to description-based analysis\<close>, reached from two places. It stands
  outside the \<^verbatim>\<open>try\<close>: what \<^verbatim>\<open>len\<close> or \<^verbatim>\<open>lower\<close> raises leaves the function.
\<close>

definition description_note :: "json \<Rightarrow> exn + string" where
  "description_note description =
     (case len description of
        Inl e \<Rightarrow> Inl e
      | Inr n \<Rightarrow>
          if n > 200
            then Inr ''A deep, complex narrative that readers find emotionally resonant.''
          else if n > 100
            then Inr ''A compelling story with layers waiting to be discovered.''
          else
            (case str_lower description of
               Inl e \<Rightarrow> Inl e
             | Inr lowered \<Rightarrow>
                 if str_in ''mystery'' lowered
                   then Inr ''A mysterious tale that will keep you guessing.''
                 else if str_in ''romance'' lowered
                   then Inr ''A heartwarming story perfect for cozy reading.''
                 else Inr ''A delightful read for any quiet moment.''))"

definition generate_book_note ::
  "'w ai_service_enhanced option \<Rightarrow> json \<Rightarrow> json \<Rightarrow> json \<Rightarrow> 'w world
     \<Rightarrow> (exn + string) \<times> 'w world" where
  "generate_book_note mood_analysis description title author s =
     (case mood_analysis of
        None \<Rightarrow> (description_note description, s)
      | Some m \<Rightarrow>
          if truthy title \<and> truthy author then
            (case call_ext (generate_enhanced_book_note m description title author) s of
               (Inr note, s') \<Rightarrow> (Inr note, s')
             | (Inl e, s') \<Rightarrow>
                 (description_note description,
                  print (''Mood analysis failed, using fallback: '' @ message e) s'))
          else (description_note description, s))"

text \<open>
  The dictionary \<^verbatim>\<open>mood_queries\<close>; a Python dictionary iterates in insertion order, so
  it is an association list in the order of the source.
\<close>

definition mood_queries :: "(string \<times> string) list" where
  "mood_queries =
     [(''cozy'', ''comfort reads warm atmosphere''),
      (''dark'', ''psychological thriller mystery''),
      (''romantic'', ''romance love story''),
      (''mysterious'', ''mystery suspense thriller''),
      (''uplifting'', ''inspiring hopeful positive''),
      (''melancholy'', ''literary fiction emotional''),
      (''adventurous'', ''adventure fantasy epic'')]"

text \<open>The \<^verbatim>\<open>for mood, book_query in mood_queries.items()\<close> loop, returning at the first match.\<close>

fun scan_moods :: "(string \<times> string) list \<Rightarrow> string \<Rightarrow> string option" where
  "scan_moods [] query_lower = None"
| "scan_moods ((mood, book_query) # rest) query_lower =
     (if str_in mood query_lower
        then Some (''AI-optimized '' @ mood @ '' results: '' @ book_query)
      else scan_moods rest query_lower)"

text \<open>
  \<^verbatim>\<open>query.lower()\<close> raises for a query that is not a string; past it the query is the
  string \<open>q\<close>, which the last line formats as it is.
\<close>

definition get_ai_recommendations ::
  "json \<Rightarrow> 'w world \<Rightarrow> (exn + string) \<times> 'w world" where
  "get_ai_recommendations query s =
     (case query of
        JStr q \<Rightarrow>
          (case scan_moods mood_queries (lower q) of
             Some result \<Rightarrow> (Inr result, s)
           | None \<Rightarrow> (Inr (''AI-optimized results for: '' @ q), s))
      | _ \<Rightarrow> (Inl (no_attribute query ''lower''), s))"

definition get_book_mood_tags_safe ::
  "'w ai_service_enhanced option \<Rightarrow> json \<Rightarrow> json \<Rightarrow> 'w world
     \<Rightarrow> (exn + string list) \<times> 'w world" where
  "get_book_mood_tags_safe mood_analysis title author s =
     (case mood_analysis of
        None \<Rightarrow> (Inr [], s)
      | Some m \<Rightarrow>
          (case call_ext (get_book_mood_tags m title author) s of
             (Inr tags, s') \<Rightarrow> (Inr tags, s')
           | (Inl e, s') \<Rightarrow>
               (Inr [], print (''Error getting mood tags: '' @ message e) s')))"

section \<open>app.py\<close>

text \<open>
  A response is the status code and the JSON body that \<^verbatim>\<open>jsonify\<close> builds; a handler
  that returns \<^verbatim>\<open>jsonify(...)\<close> alone answers with status 200. A handler is given the
  outcome of \<^verbatim>\<open>request.json\<close>: the parsed body, which may be any JSON value, or the
  exception that Flask raises for a body it cannot read as JSON. A handler returns a
  response, or an exception leaves it; that exception is then answered by the framework
  and not by the handler.
\<close>

record response =
  status :: nat
  body :: json

text \<open>The class \<^verbatim>\<open>AIBookService\<close> of the analyzer package, of which the application uses one method.\<close>

record 'w AIBookService =
  analyze_book_mood :: "json \<Rightarrow> json \<Rightarrow> 'w \<Rightarrow> (exn + json) \<times> 'w"

text \<open>
  The module-level state of \<^verbatim>\<open>app.py\<close>: the module \<^verbatim>\<open>ai_service\<close> as it was imported
  (with the outcome of its own import of the analyzer package), and the instance
  \<^verbatim>\<open>ai_service = AIBookService()\<close>, which exists exactly when the application's own
  \<^verbatim>\<open>MOOD_ANALYSIS_AVAILABLE\<close> is true.
\<close>

record 'w app =
  service_import :: "'w ai_service_enhanced option"
  ai_service :: "'w AIBookService option"

text \<open>
  \<^verbatim>\<open>handle_generate_note\<close> has no \<^verbatim>\<open>try\<close>: an exception of \<^verbatim>\<open>generate_book_note\<close>
  leaves the handler.
\<close>

definition handle_generate_note ::
  "'w app \<Rightarrow> exn + json \<Rightarrow> 'w world \<Rightarrow> (exn + response) \<times> 'w world" where
  "handle_generate_note app request_json s =
     (case request_json of
        Inl e \<Rightarrow> (Inl e, s)
      | Inr data \<Rightarrow>
          (case get_method data of
             Inl e \<Rightarrow> (Inl e, s)
           | Inr fs \<Rightarrow>
               (let description = dict_get fs ''description'' (JStr '''');
                    title = dict_get fs ''title'' (JStr '''');
                    author = dict_get fs ''author'' (JStr '''')
                in case generate_book_note (service_import app) description title author s of
                     (Inr vibe, s') \<Rightarrow>
                       (Inr \<lparr>status = 200, body = JObj [(''vibe'', JStr vibe)]\<rparr>, s')
                   | (Inl e, s') \<Rightarrow> (Inl e, s'))))"

definition handle_analyze_mood ::
  "'w app \<Rightarrow> exn + json \<Rightarrow> 'w world \<Rightarrow> (exn + response) \<times> 'w world" where
  "handle_analyze_mood app request_json s =
     (case ai_service app of
        None \<Rightarrow>
          (Inr \<lparr>status = 503,
                body = JObj [(''success'', JBool False),
                             (''error'',
                              JStr ''Mood analysis not available - missing dependencies'')]\<rparr>,
           s)
      | Some service \<Rightarrow>
          (case request_json of
             Inl e \<Rightarrow> (Inl e, s)
           | Inr data \<Rightarrow>
               (case get_method data of
                  Inl e \<Rightarrow> (Inl e, s)
                | Inr fs \<Rightarrow>
                    (let title = dict_get fs ''title'' (JStr '''');
                         author = dict_get fs ''author'' (JStr '''')
                     in if \<not> truthy title then
                          (Inr \<lparr>status = 400,
                                body = JObj [(''error'', JStr ''Title is required'')]\<rparr>,
                           s)
                        else
                          (case call_ext (analyze_book_mood service title author) s of
                             (Inr mood_analysis, s') \<Rightarrow>
                               if truthy mood_analysis then
                                 (Inr \<lparr>status = 200,
                                       body = JObj [(''success'', JBool True),
                                                    (''mood_analysis'', mood_analysis)]\<rparr>,
                                  s')
                               else
                                 (Inr \<lparr>status = 404,
                                       body = JObj [(''success'', JBool False),
                                                    (''error'',
                                                     JStr ''Could not analyze mood for this book'')]\<rparr>,
                                  s')
                           | (Inl e, s') \<Rightarrow>
                               (Inr \<lparr>status = 500,
                                     body = JObj [(''success'', JBool False),
                                                  (''error'', JStr (message e))]\<rparr>,
                                s'))))))"

definition handle_mood_tags ::
  "'w app \<Rightarrow> exn + json \<Rightarrow> 'w world \<Rightarrow> (exn + response) \<times> 'w world" where
  "handle_mood_tags app request_json s =
     (case request_json of
        Inl e \<Rightarrow> (Inl e, s)
      | Inr data \<Rightarrow>
          (case get_method data of
             Inl e \<Rightarrow> (Inl e, s)
           | Inr fs \<Rightarrow>
               (let title = dict_get fs ''title'' (JStr '''');
                    author = dict_get fs ''author'' (JStr '''')
                in if \<not> truthy title then
                     (Inr \<lparr>status = 400,
                           body = JObj [(''error'', JStr ''Title is required'')]\<rparr>,
                      s)
                   else
                     (case get_book_mood_tags_safe (service_import app) title author s of
                        (Inr mood_tags, s') \<Rightarrow>
                          (Inr \<lparr>status = 200,
                                body = JObj [(''success'', JBool True),
                                             (''mood_tags'', JArr (map JStr mood_tags))]\<rparr>,
                           s')
                      | (Inl e, s') \<Rightarrow>
                          (Inr \<lparr>status = 500,
                                body = JObj [(''success'', JBool False),
                                             (''error'', JStr (message e))]\<rparr>,
                           s')))))"

definition handle_mood_search ::
  "exn + json \<Rightarrow> 'w world \<Rightarrow> (exn + response) \<times> 'w world" where
  "handle_mood_search request_json s =
     (case request_json of
        Inl e \<Rightarrow> (Inl e, s)
      | Inr data \<Rightarrow>
          (case get_method data of
             Inl e \<Rightarrow> (Inl e, s)
           | Inr fs \<Rightarrow>
               (let mood_query = dict_get fs ''query'' (JStr '''')
                in if \<not> truthy mood_query then
                     (Inr \<lparr>status = 400,
                           body = JObj [(''error'', JStr ''Query is required'')]\<rparr>,
                      s)
                   else
                     (case get_ai_recommendations mood_query s of
                        (Inr recommendations, s') \<Rightarrow>
                          (Inr \<lparr>status = 200,
                                body = JObj [(''success'', JBool True),
                                             (''recommendations'', JStr recommendations),
                                             (''query'', mood_query)]\<rparr>,
                           s')
                      | (Inl e, s') \<Rightarrow>
                          (Inr \<lparr>status = 500,
                                body = JObj [(''success'', JBool False),
                                             (''error'', JStr (message e))]\<rparr>,
                           s')))))"

section \<open>The error envelope\<close>

text \<open>
  The envelope \<^verbatim>\<open>{success: false, error: message}\<close>: a JSON object with exactly the fields
  \<open>success\<close>, which is false, and \<open>error\<close>, which is text.
\<close>

definition is_error_envelope :: "json \<Rightarrow> bool" where
  "is_error_envelope b =
     (case b of
        JObj fs \<Rightarrow>
          set (map fst fs) = {''success'', ''error''} \<and>
          map_of fs ''success'' = Some (JBool False) \<and>
          (case map_of fs ''error'' of Some (JStr msg) \<Rightarrow> True | _ \<Rightarrow> False)
      | _ \<Rightarrow> False)"

section \<open>An analyzer for the examples\<close>

text \<open>
  A stand-in for the analyzer package, used where a statement is tried on a concrete
  input. Its external state counts the calls made so far: the first call is answered,
  the second finds nothing, and every later call fails, as behind a rate limit.
\<close>

definition limited_note :: "json \<Rightarrow> json \<Rightarrow> json \<Rightarrow> nat \<Rightarrow> (exn + string) \<times> nat" where
  "limited_note description title author n =
     (if n = 0 then Inr ''Readers call it tender and bittersweet.''
      else Inl (Exception ''rate limit exceeded''),
      Suc n)"

definition limited_tags :: "json \<Rightarrow> json \<Rightarrow> nat \<Rightarrow> (exn + string list) \<times> nat" where
  "limited_tags title author n =
     (if n = 0 then Inr [''cozy'', ''wistful'']
      else Inl (Exception ''rate limit exceeded''),
      Suc n)"

definition limited_analysis :: "json \<Rightarrow> json \<Rightarrow> nat \<Rightarrow> (exn + json) \<times> nat" where
  "limited_analysis title author n =
     (if n = 0 then Inr (JObj [(''primary_mood'', JStr ''cozy'')])
      else if n = 1 then Inr JNull
      else Inl (Exception ''rate limit exceeded''),
      Suc n)"

definition limited :: "nat ai_service_enhanced" where
  "limited =
     \<lparr>generate_enhanced_book_note = limited_note, get_book_mood_tags = limited_tags\<rparr>"

definition limited_service :: "nat AIBookService" where
  "limited_service = \<lparr>analyze_book_mood = limited_analysis\<rparr>"

definition online :: "nat app" where
  "online = \<lparr>service_import = Some limited, ai_service = Some limited_service\<rparr>"

definition offline :: "nat app" where
  "offline = \<lparr>service_import = None, ai_service = None\<rparr>"

text \<open>The world after \<open>n\<close> calls to the analyzer, with nothing printed yet.\<close>

definition after_calls :: "nat \<Rightarrow> nat world" where
  "after_calls n = \<lparr>stdout = [], ext = n\<rparr>"

section \<open>Substring search\<close>

lemma str_in_iff: "str_in sub s \<longleftrightarrow> (\<exists>pre post. s = pre @ sub @ post)"
proof (induction s)
  case Nil
  then show ?case by auto
next
  case (Cons c cs)
  show ?case
  proof
    assume "str_in sub (c # cs)"
    then consider "prefix sub (c # cs)" | "str_in sub cs" by auto
    then show "\<exists>pre post. c # cs = pre @ sub @ post"
    proof cases
      case 1
      then obtain post where "c # cs = sub @ post" by (auto simp: prefix_def)
      then have "c # cs = [] @ sub @ post" by simp
      then show ?thesis by blast
    next
      case 2
      with Cons.IH obtain pre post where "cs = pre @ sub @ post" by blast
      then have "c # cs = (c # pre) @ sub @ post" by simp
      then show ?thesis by blast
    qed
  next
    assume "\<exists>pre post. c # cs = pre @ sub @ post"
    then obtain pre post where eq: "c # cs = pre @ sub @ post" by blast
    show "str_in sub (c # cs)"
    proof (cases pre)
      case Nil
      with eq have "prefix sub (c # cs)" by (simp add: prefix_def)
      then show ?thesis by simp
    next
      case (Cons p ps)
      with eq have "cs = ps @ sub @ post" by simp
      with Cons.IH have "str_in sub cs" by blast
      then show ?thesis by simp
    qed
  qed
qed

lemma str_in_sublist: "str_in sub s \<longleftrightarrow> sublist sub s"
  by (simp add: str_in_iff sublist_def)

section \<open>The note generator\<close>

lemma description_note_text:
  "description_note (JStr d) =
     Inr (if length d > 200
            then ''A deep, complex narrative that readers find emotionally resonant.''
          else if length d > 100
            then ''A compelling story with layers waiting to be discovered.''
          else if sublist ''mystery'' (lower d)
            then ''A mysterious tale that will keep you guessing.''
          else if sublist ''romance'' (lower d)
            then ''A heartwarming story perfect for cozy reading.''
          else ''A delightful read for any quiet moment.'')"
  by (simp add: description_note_def str_in_sublist)

lemma generate_book_note_not_called:
  "mood_analysis = None \<or> \<not> truthy title \<or> \<not> truthy author \<Longrightarrow>
   generate_book_note mood_analysis description title author s =
     (description_note description, s)"
  by (auto simp: generate_book_note_def split: option.splits)

lemma generate_book_note_returns:
  "generate_enhanced_book_note m description title author (ext s) = (Inr enhanced, w') \<Longrightarrow>
   truthy title \<Longrightarrow> truthy author \<Longrightarrow>
   generate_book_note (Some m) description title author s = (Inr enhanced, s\<lparr>ext := w'\<rparr>)"
  by (simp add: generate_book_note_def call_ext_def)

lemma generate_book_note_raises:
  "generate_enhanced_book_note m description title author (ext s) = (Inl e, w') \<Longrightarrow>
   truthy title \<Longrightarrow> truthy author \<Longrightarrow>
   generate_book_note (Some m) description title author s =
     (description_note description,
      print (''Mood analysis failed, using fallback: '' @ message e) (s\<lparr>ext := w'\<rparr>))"
  by (simp add: generate_book_note_def call_ext_def)

lemma generate_book_note_result:
  "(\<exists>enhanced. fst (generate_book_note mood_analysis description title author s) = Inr enhanced) \<or>
   fst (generate_book_note mood_analysis description title author s) =
     description_note description"
  by (auto simp: generate_book_note_def split: option.splits prod.splits sum.splits)

text \<open>
  C1. When the analyzer package is not available, or the title or the author is empty
  (false in Python's truth test), \<^verbatim>\<open>generate_book_note\<close> on a description that is a string
  leaves the world as it is and returns the first phrase of the ordered local heuristic
  that applies: longer than 200 characters, longer than 100 characters, the lower-cased
  description contains \<open>mystery\<close>, it contains \<open>romance\<close>, and the default otherwise. In
  particular every description longer than 200 characters gets the phrase of the deep,
  complex narrative.
\<close>

theorem generate_book_note_local_heuristic:
  "mood_analysis = None \<or> \<not> truthy title \<or> \<not> truthy author \<Longrightarrow>
   generate_book_note mood_analysis (JStr description) title author s =
     (Inr (if length description > 200
             then ''A deep, complex narrative that readers find emotionally resonant.''
           else if length description > 100
             then ''A compelling story with layers waiting to be discovered.''
           else if sublist ''mystery'' (lower description)
             then ''A mysterious tale that will keep you guessing.''
           else if sublist ''romance'' (lower description)
             then ''A heartwarming story perfect for cozy reading.''
           else ''A delightful read for any quiet moment.''),
      s) \<and>
   (length description > 200 \<longrightarrow>
      fst (generate_book_note mood_analysis (JStr description) title author s) =
        Inr ''A deep, complex narrative that readers find emotionally resonant.'')"
proof -
  assume absent: "mood_analysis = None \<or> \<not> truthy title \<or> \<not> truthy author"
  have "generate_book_note mood_analysis (JStr description) title author s =
          (description_note (JStr description), s)"
    using absent by (rule generate_book_note_not_called)
  then show ?thesis
    by (simp add: description_note_text)
qed

theorem generate_book_note_local_heuristic_witness:
  "generate_book_note (Some limited) (JStr ''A Mystery on the Nile'') (JStr '''')
     (JStr ''Agatha Christie'') (after_calls 0) =
     (Inr ''A mysterious tale that will keep you guessing.'', after_calls 0) \<and>
   fst (generate_book_note None (JStr (replicate 201 CHR ''x'')) (JStr ''Ulysses'')
     (JStr ''James Joyce'') (after_calls 0)) =
     Inr ''A deep, complex narrative that readers find emotionally resonant.''"
proof -
  have h1: "Some limited = None \<or> \<not> truthy (JStr '''') \<or> \<not> truthy (JStr ''Agatha Christie'')"
    by simp
  have short: "\<not> length ''A Mystery on the Nile'' > 100"
    by simp
  have found: "sublist ''mystery'' (lower ''A Mystery on the Nile'')"
    by (simp add: str_in_sublist [symmetric] lower_def lower_char_def)
  have h2: "(None :: nat ai_service_enhanced option) = None \<or> \<not> truthy (JStr ''Ulysses'') \<or>
     \<not> truthy (JStr ''James Joyce'')"
    by simp
  have long: "length (replicate 201 CHR ''x'') > 200"
    by simp
  from generate_book_note_local_heuristic
         [OF h1, where description = "''A Mystery on the Nile''" and s = "after_calls 0"]
       short found
  have a: "generate_book_note (Some limited) (JStr ''A Mystery on the Nile'') (JStr '''')
     (JStr ''Agatha Christie'') (after_calls 0) =
     (Inr ''A mysterious tale that will keep you guessing.'', after_calls 0)"
    by simp
  from generate_book_note_local_heuristic
         [OF h2, where description = "replicate 201 CHR ''x''" and s = "after_calls 0"]
       long
  have b: "fst (generate_book_note None (JStr (replicate 201 CHR ''x'')) (JStr ''Ulysses'')
     (JStr ''James Joyce'') (after_calls 0)) =
     Inr ''A deep, complex narrative that readers find emotionally resonant.''"
    by blast
  from a b show ?thesis by (rule conjI)
qed

text \<open>
  Against C5 as it is stated: the local heuristic stands outside the \<^verbatim>\<open>try\<close>. A request
  to \<^verbatim>\<open>/api/v1/generate-note\<close> whose description is JSON null hands \<^verbatim>\<open>None\<close> to
  \<^verbatim>\<open>generate_book_note\<close>, where \<^verbatim>\<open>len(description)\<close> raises a \<^verbatim>\<open>TypeError\<close> that leaves the
  function and, there being no \<^verbatim>\<open>try\<close> in the handler, the handler as well.
\<close>

theorem generate_book_note_raises_on_null:
  "fst (generate_book_note (Some limited) JNull (JStr ''Emma'') (JStr ''Jane Austen'')
          (after_calls 2)) =
     Inl (Exception (''object of type '' @ quote ''NoneType'' @ '' has no len()'')) \<and>
   fst (generate_book_note None JNull (JStr '''') (JStr '''') (after_calls 0)) =
     Inl (Exception (''object of type '' @ quote ''NoneType'' @ '' has no len()'')) \<and>
   fst (handle_generate_note offline (Inr (JObj [(''description'', JNull)])) (after_calls 0)) =
     Inl (Exception (''object of type '' @ quote ''NoneType'' @ '' has no len()''))"
  by (simp add: generate_book_note_def handle_generate_note_def description_note_def
        dict_get_def call_ext_def limited_def limited_note_def offline_def after_calls_def)

text \<open>
  C5, as amended. \<^verbatim>\<open>generate_book_note\<close> calls the analyzer only when the package is
  available and both title and author are non-empty: otherwise the world, the analyzer's
  state included, is as before and the result is the local heuristic's. When it calls the
  analyzer and the call returns, the result is the analyzer's text; when the call raises,
  the exception is not propagated and the result is the local heuristic's. For a
  description that is a string the function returns a note and raises nothing. An
  exception that leaves the function is always the local heuristic's own.
\<close>

theorem generate_book_note_swallows_analyzer_failure:
  "(mood_analysis = None \<or> \<not> truthy title \<or> \<not> truthy author \<longrightarrow>
      generate_book_note mood_analysis description title author s =
        (description_note description, s)) \<and>
   (mood_analysis = Some m \<and> truthy title \<and> truthy author \<and>
    generate_enhanced_book_note m description title author (ext s) = (Inr enhanced, w') \<longrightarrow>
      generate_book_note mood_analysis description title author s =
        (Inr enhanced, s\<lparr>ext := w'\<rparr>)) \<and>
   (mood_analysis = Some m \<and> truthy title \<and> truthy author \<and>
    generate_enhanced_book_note m description title author (ext s) = (Inl e, w') \<longrightarrow>
      fst (generate_book_note mood_analysis description title author s) =
        description_note description) \<and>
   (\<exists>phrase. description_note (JStr d) = Inr phrase) \<and>
   (\<exists>result. fst (generate_book_note mood_analysis (JStr d) title author s) = Inr result) \<and>
   (fst (generate_book_note mood_analysis description title author s) = Inl raised \<longrightarrow>
      description_note description = Inl raised)"
proof (intro conjI impI)
  assume "mood_analysis = None \<or> \<not> truthy title \<or> \<not> truthy author"
  then show "generate_book_note mood_analysis description title author s =
        (description_note description, s)"
    by (rule generate_book_note_not_called)
next
  assume "mood_analysis = Some m \<and> truthy title \<and> truthy author \<and>
    generate_enhanced_book_note m description title author (ext s) = (Inr enhanced, w')"
  then show "generate_book_note mood_analysis description title author s =
        (Inr enhanced, s\<lparr>ext := w'\<rparr>)"
    by (simp add: generate_book_note_returns)
next
  assume "mood_analysis = Some m \<and> truthy title \<and> truthy author \<and>
    generate_enhanced_book_note m description title author (ext s) = (Inl e, w')"
  then show "fst (generate_book_note mood_analysis description title author s) =
        description_note description"
    by (simp add: generate_book_note_raises)
next
  show "\<exists>phrase. description_note (JStr d) = Inr phrase"
    by (simp add: description_note_text)
next
  show "\<exists>result. fst (generate_book_note mood_analysis (JStr d) title author s) = Inr result"
    using generate_book_note_result [of mood_analysis "JStr d" title author s]
    by (auto simp: description_note_text)
next
  assume "fst (generate_book_note mood_analysis description title author s) = Inl raised"
  then show "description_note description = Inl raised"
    using generate_book_note_result [of mood_analysis description title author s]
    by auto
qed

theorem generate_book_note_swallows_analyzer_failure_witness:
  "generate_book_note (Some limited) (JStr ''A quiet village story.'') (JStr ''Emma'')
     (JStr '''') (after_calls 0) =
     (Inr ''A delightful read for any quiet moment.'', after_calls 0) \<and>
   generate_book_note (Some limited) (JStr ''A quiet village story.'') (JStr ''Emma'')
     (JStr ''Jane Austen'') (after_calls 0) =
     (Inr ''Readers call it tender and bittersweet.'', after_calls 1) \<and>
   generate_enhanced_book_note limited (JStr ''A quiet village story.'') (JStr ''Emma'')
     (JStr ''Jane Austen'') 2 =
     (Inl (Exception ''rate limit exceeded''), 3) \<and>
   fst (generate_book_note (Some limited) (JStr ''A quiet village story.'') (JStr ''Emma'')
     (JStr ''Jane Austen'') (after_calls 2)) =
     Inr ''A delightful read for any quiet moment.'' \<and>
   fst (generate_book_note (Some limited) JNull (JStr ''Emma'') (JStr ''Jane Austen'')
     (after_calls 2)) =
     Inl (Exception (''object of type '' @ quote ''NoneType'' @ '' has no len()'')) \<and>
   description_note JNull =
     Inl (Exception (''object of type '' @ quote ''NoneType'' @ '' has no len()''))"
proof -
  let ?d = "JStr ''A quiet village story.''"
  let ?emma = "JStr ''Emma''"
  let ?austen = "JStr ''Jane Austen''"
  let ?type_error = "Exception (''object of type '' @ quote ''NoneType'' @ '' has no len()'')"
  have phrase: "description_note ?d = Inr ''A delightful read for any quiet moment.''"
    by (simp add: description_note_def lower_def lower_char_def)
  have ok: "generate_enhanced_book_note limited ?d ?emma ?austen (ext (after_calls 0)) =
     (Inr ''Readers call it tender and bittersweet.'', 1)"
    by (simp add: limited_def limited_note_def after_calls_def)
  have bad: "generate_enhanced_book_note limited ?d ?emma ?austen (ext (after_calls 2)) =
     (Inl (Exception ''rate limit exceeded''), 3)"
    by (simp add: limited_def limited_note_def after_calls_def)
  have a: "generate_book_note (Some limited) ?d ?emma (JStr '''') (after_calls 0) =
     (Inr ''A delightful read for any quiet moment.'', after_calls 0)"
    using generate_book_note_swallows_analyzer_failure
            [where mood_analysis = "Some limited" and description = ?d and title = ?emma
               and author = "JStr ''''" and s = "after_calls 0"]
          phrase
    by simp
  have b: "generate_book_note (Some limited) ?d ?emma ?austen (after_calls 0) =
     (Inr ''Readers call it tender and bittersweet.'', after_calls 1)"
    using generate_book_note_swallows_analyzer_failure
            [where mood_analysis = "Some limited" and m = limited and description = ?d
               and title = ?emma and author = ?austen and s = "after_calls 0"
               and enhanced = "''Readers call it tender and bittersweet.''" and w' = 1]
          ok
    by (simp add: after_calls_def)
  have c: "fst (generate_book_note (Some limited) ?d ?emma ?austen (after_calls 2)) =
     Inr ''A delightful read for any quiet moment.''"
    using generate_book_note_swallows_analyzer_failure
            [where mood_analysis = "Some limited" and m = limited and description = ?d
               and title = ?emma and author = ?austen and s = "after_calls 2"
               and e = "Exception ''rate limit exceeded''" and w' = 3]
          bad phrase
    by simp
  have raised: "fst (generate_book_note (Some limited) JNull ?emma ?austen (after_calls 2)) =
     Inl ?type_error"
    by (simp add: generate_book_note_def description_note_def call_ext_def limited_def
          limited_note_def after_calls_def)
  have d: "description_note JNull = Inl ?type_error"
    using generate_book_note_swallows_analyzer_failure
            [where mood_analysis = "Some limited" and description = JNull
               and title = ?emma and author = ?austen and s = "after_calls 2"
               and raised = ?type_error]
          raised
    by blast
  from a b bad c raised d show ?thesis by (simp add: after_calls_def)
qed

section \<open>The mood query mapper\<close>

lemma scan_moods_first_match:
  "i < length table \<Longrightarrow> str_in (fst (table ! i)) q \<Longrightarrow>
   (\<And>j. j < i \<Longrightarrow> \<not> str_in (fst (table ! j)) q) \<Longrightarrow>
   scan_moods table q =
     Some (''AI-optimized '' @ fst (table ! i) @ '' results: '' @ snd (table ! i))"
proof (induction table q arbitrary: i rule: scan_moods.induct)
  case (1 q)
  then show ?case by simp
next
  case (2 mood book_query rest q)
  show ?case
  proof (cases i)
    case 0
    with "2.prems" show ?thesis by simp
  next
    case (Suc k)
    with "2.prems"(3) [of 0] have miss: "\<not> str_in mood q" by simp
    have "scan_moods rest q =
            Some (''AI-optimized '' @ fst (rest ! k) @ '' results: '' @ snd (rest ! k))"
    proof (rule "2.IH" [OF miss])
      show "k < length rest" using "2.prems"(1) Suc by simp
      show "str_in (fst (rest ! k)) q" using "2.prems"(2) Suc by simp
      show "\<not> str_in (fst (rest ! j)) q" if "j < k" for j
        using "2.prems"(3) [of "Suc j"] that Suc by simp
    qed
    with miss Suc show ?thesis by simp
  qed
qed

lemma scan_moods_no_match:
  "(\<And>j. j < length table \<Longrightarrow> \<not> str_in (fst (table ! j)) q) \<Longrightarrow> scan_moods table q = None"
proof (induction table q rule: scan_moods.induct)
  case (1 q)
  then show ?case by simp
next
  case (2 mood book_query rest q)
  from "2.prems" [of 0] have miss: "\<not> str_in mood q" by simp
  have "scan_moods rest q = None"
  proof (rule "2.IH" [OF miss])
    show "\<not> str_in (fst (rest ! j)) q" if "j < length rest" for j
      using "2.prems" [of "Suc j"] that by simp
  qed
  with miss show ?case by simp
qed

lemma scan_moods_prefix:
  "scan_moods table q = Some result \<Longrightarrow> prefix ''AI-optimized '' result"
  by (induction table q rule: scan_moods.induct) (auto split: if_splits)

lemma length_mood_queries: "length mood_queries = 7"
  by (simp add: mood_queries_def)

lemma get_ai_recommendations_text:
  "get_ai_recommendations (JStr q) s =
     (case scan_moods mood_queries (lower q) of
        Some result \<Rightarrow> (Inr result, s)
      | None \<Rightarrow> (Inr (''AI-optimized results for: '' @ q), s))"
  by (simp add: get_ai_recommendations_def)

lemma get_ai_recommendations_pure:
  "get_ai_recommendations query s = (fst (get_ai_recommendations query s'), s)"
  by (cases query) (simp_all add: get_ai_recommendations_def split: option.splits)

text \<open>
  C2. The table holds the seven mood keywords in the order of the source. For the first
  keyword, in that order, that occurs in the lower-cased query, \<^verbatim>\<open>get_ai_recommendations\<close>
  returns \<open>AI-optimized {mood} results: {expansion}\<close> with that entry's expansion; when no
  keyword occurs, it returns \<open>AI-optimized results for: \<close> followed by the query as it was
  given. The two queries of the specification give the results it states.
\<close>

theorem get_ai_recommendations_first_match:
  "map fst mood_queries =
     [''cozy'', ''dark'', ''romantic'', ''mysterious'', ''uplifting'', ''melancholy'',
      ''adventurous''] \<and>
   (\<forall>i < 7.
      sublist (fst (mood_queries ! i)) (lower query) \<and>
      (\<forall>j < i. \<not> sublist (fst (mood_queries ! j)) (lower query)) \<longrightarrow>
      get_ai_recommendations (JStr query) s =
        (Inr (''AI-optimized '' @ fst (mood_queries ! i) @ '' results: '' @
              snd (mood_queries ! i)),
         s)) \<and>
   ((\<forall>i < 7. \<not> sublist (fst (mood_queries ! i)) (lower query)) \<longrightarrow>
      get_ai_recommendations (JStr query) s =
        (Inr (''AI-optimized results for: '' @ query), s)) \<and>
   get_ai_recommendations (JStr ''I want something dark and brooding'') s =
     (Inr ''AI-optimized dark results: psychological thriller mystery'', s) \<and>
   get_ai_recommendations (JStr ''tell me something'') s =
     (Inr ''AI-optimized results for: tell me something'', s)"
proof (intro conjI allI impI)
  show "map fst mood_queries =
     [''cozy'', ''dark'', ''romantic'', ''mysterious'', ''uplifting'', ''melancholy'',
      ''adventurous'']"
    by (simp add: mood_queries_def)
next
  fix i :: nat
  assume i: "i < 7"
    and first: "sublist (fst (mood_queries ! i)) (lower query) \<and>
      (\<forall>j < i. \<not> sublist (fst (mood_queries ! j)) (lower query))"
  have "scan_moods mood_queries (lower query) =
          Some (''AI-optimized '' @ fst (mood_queries ! i) @ '' results: '' @
                snd (mood_queries ! i))"
  proof (rule scan_moods_first_match)
    show "i < length mood_queries" using i by (simp add: length_mood_queries)
    show "str_in (fst (mood_queries ! i)) (lower query)"
      using first by (simp add: str_in_sublist)
    show "\<not> str_in (fst (mood_queries ! j)) (lower query)" if "j < i" for j
      using first that by (simp add: str_in_sublist)
  qed
  then show "get_ai_recommendations (JStr query) s =
        (Inr (''AI-optimized '' @ fst (mood_queries ! i) @ '' results: '' @
              snd (mood_queries ! i)),
         s)"
    by (simp add: get_ai_recommendations_text)
next
  assume none: "\<forall>i < 7. \<not> sublist (fst (mood_queries ! i)) (lower query)"
  have "scan_moods mood_queries (lower query) = None"
  proof (rule scan_moods_no_match)
    show "\<not> str_in (fst (mood_queries ! j)) (lower query)" if "j < length mood_queries" for j
      using none that by (simp add: str_in_sublist length_mood_queries)
  qed
  then show "get_ai_recommendations (JStr query) s =
        (Inr (''AI-optimized results for: '' @ query), s)"
    by (simp add: get_ai_recommendations_text)
next
  show "get_ai_recommendations (JStr ''I want something dark and brooding'') s =
     (Inr ''AI-optimized dark results: psychological thriller mystery'', s)"
    by (simp add: get_ai_recommendations_def mood_queries_def lower_def lower_char_def)
next
  show "get_ai_recommendations (JStr ''tell me something'') s =
     (Inr ''AI-optimized results for: tell me something'', s)"
    by (simp add: get_ai_recommendations_def mood_queries_def lower_def lower_char_def)
qed

theorem get_ai_recommendations_first_match_witness:
  "sublist ''romantic'' (lower ''Dark but ROMANTIC'') \<and>
   sublist ''dark'' (lower ''Dark but ROMANTIC'') \<and>
   \<not> sublist ''cozy'' (lower ''Dark but ROMANTIC'') \<and>
   get_ai_recommendations (JStr ''Dark but ROMANTIC'') (after_calls 0) =
     (Inr ''AI-optimized dark results: psychological thriller mystery'', after_calls 0) \<and>
   get_ai_recommendations (JStr ''Quiet Evenings'') (after_calls 0) =
     (Inr ''AI-optimized results for: Quiet Evenings'', after_calls 0)"
proof -
  let ?q = "''Dark but ROMANTIC''"
  have romantic: "sublist ''romantic'' (lower ?q)"
    by (simp add: str_in_sublist [symmetric] lower_def lower_char_def)
  have dark: "sublist ''dark'' (lower ?q)"
    by (simp add: str_in_sublist [symmetric] lower_def lower_char_def)
  have cozy: "\<not> sublist ''cozy'' (lower ?q)"
    by (simp add: str_in_sublist [symmetric] lower_def lower_char_def)
  have entry: "mood_queries ! Suc 0 = (''dark'', ''psychological thriller mystery'')"
    and entry0: "mood_queries ! 0 = (''cozy'', ''comfort reads warm atmosphere'')"
    by (simp_all add: mood_queries_def)
  have first: "sublist (fst (mood_queries ! 1)) (lower ?q) \<and>
      (\<forall>j < 1. \<not> sublist (fst (mood_queries ! j)) (lower ?q))"
    using dark cozy by (simp add: entry entry0)
  have step: "\<forall>i < 7.
      sublist (fst (mood_queries ! i)) (lower ?q) \<and>
      (\<forall>j < i. \<not> sublist (fst (mood_queries ! j)) (lower ?q)) \<longrightarrow>
      get_ai_recommendations (JStr ?q) (after_calls 0) =
        (Inr (''AI-optimized '' @ fst (mood_queries ! i) @ '' results: '' @
              snd (mood_queries ! i)),
         after_calls 0)"
    using get_ai_recommendations_first_match [of ?q "after_calls 0"] by blast
  have "get_ai_recommendations (JStr ?q) (after_calls 0) =
        (Inr (''AI-optimized '' @ fst (mood_queries ! 1) @ '' results: '' @
              snd (mood_queries ! 1)),
         after_calls 0)"
    using step [rule_format, of 1] first by simp
  then have a: "get_ai_recommendations (JStr ?q) (after_calls 0) =
     (Inr ''AI-optimized dark results: psychological thriller mystery'', after_calls 0)"
    by (simp add: entry)
  let ?p = "''Quiet Evenings''"
  have none: "\<forall>i < 7. \<not> sublist (fst (mood_queries ! i)) (lower ?p)"
  proof (intro allI impI)
    fix i :: nat
    assume "i < 7"
    then have "i \<in> {0, 1, 2, 3, 4, 5, 6}" by auto
    then show "\<not> sublist (fst (mood_queries ! i)) (lower ?p)"
      by (auto simp: str_in_sublist [symmetric] mood_queries_def lower_def lower_char_def)
  qed
  have "(\<forall>i < 7. \<not> sublist (fst (mood_queries ! i)) (lower ?p)) \<longrightarrow>
      get_ai_recommendations (JStr ?p) (after_calls 0) =
        (Inr (''AI-optimized results for: '' @ ?p), after_calls 0)"
    using get_ai_recommendations_first_match [of ?p "after_calls 0"] by blast
  with none have b: "get_ai_recommendations (JStr ?p) (after_calls 0) =
     (Inr ''AI-optimized results for: Quiet Evenings'', after_calls 0)"
    by simp
  from romantic dark cozy a b show ?thesis by blast
qed

text \<open>
  C10. For every query string \<^verbatim>\<open>get_ai_recommendations\<close> returns a result, and the result
  begins with \<open>AI-optimized \<close>, whether a keyword matched or not.
\<close>

theorem get_ai_recommendations_prefix:
  "\<exists>result. get_ai_recommendations (JStr query) s = (Inr result, s) \<and>
            prefix ''AI-optimized '' result"
proof (cases "scan_moods mood_queries (lower query)")
  case None
  then show ?thesis by (simp add: get_ai_recommendations_text)
next
  case (Some result)
  then have "prefix ''AI-optimized '' result" by (rule scan_moods_prefix)
  with Some show ?thesis by (simp add: get_ai_recommendations_text)
qed

theorem get_ai_recommendations_prefix_witness:
  "get_ai_recommendations (JStr ''a cozy winter read'') (after_calls 0) =
     (Inr ''AI-optimized cozy results: comfort reads warm atmosphere'', after_calls 0) \<and>
   prefix ''AI-optimized '' ''AI-optimized cozy results: comfort reads warm atmosphere''"
proof -
  have computed: "get_ai_recommendations (JStr ''a cozy winter read'') (after_calls 0) =
     (Inr ''AI-optimized cozy results: comfort reads warm atmosphere'', after_calls 0)"
    by (simp add: get_ai_recommendations_def mood_queries_def lower_def lower_char_def)
  from get_ai_recommendations_prefix [of "''a cozy winter read''" "after_calls 0"]
  obtain result where
    "get_ai_recommendations (JStr ''a cozy winter read'') (after_calls 0) =
       (Inr result, after_calls 0)"
    and "prefix ''AI-optimized '' result"
    by blast
  with computed show ?thesis by simp
qed

section \<open>Failures of the analyzer\<close>

lemma get_book_mood_tags_safe_absent:
  "get_book_mood_tags_safe None title author s = (Inr [], s)"
  by (simp add: get_book_mood_tags_safe_def)

lemma get_book_mood_tags_safe_returns:
  "get_book_mood_tags m title author (ext s) = (Inr tags, w') \<Longrightarrow>
   get_book_mood_tags_safe (Some m) title author s = (Inr tags, s\<lparr>ext := w'\<rparr>)"
  by (simp add: get_book_mood_tags_safe_def call_ext_def)

lemma get_book_mood_tags_safe_raises:
  "get_book_mood_tags m title author (ext s) = (Inl e, w') \<Longrightarrow>
   get_book_mood_tags_safe (Some m) title author s =
     (Inr [], print (''Error getting mood tags: '' @ message e) (s\<lparr>ext := w'\<rparr>))"
  by (simp add: get_book_mood_tags_safe_def call_ext_def)

lemma get_book_mood_tags_safe_Inr:
  "\<exists>tags s'. get_book_mood_tags_safe mood_analysis title author s = (Inr tags, s')"
  by (auto simp: get_book_mood_tags_safe_def split: option.splits prod.splits sum.splits)

text \<open>
  C4. \<^verbatim>\<open>get_book_mood_tags_safe\<close> returns the analyzer's tags when the package is available
  and the call returns, and the empty list when the package is absent or the call raises.
  So a request to \<^verbatim>\<open>/api/v1/mood-tags\<close> with a non-empty title, made when the analyzer's
  \<^verbatim>\<open>get_book_mood_tags\<close> raises, is answered with status 200 and
  \<^verbatim>\<open>{success: true, mood_tags: []}\<close>.
\<close>

theorem get_book_mood_tags_safe_swallows:
  "(get_book_mood_tags m title author (ext s) = (Inr tags, w') \<longrightarrow>
      fst (get_book_mood_tags_safe (Some m) title author s) = Inr tags) \<and>
   fst (get_book_mood_tags_safe None title author s) = Inr [] \<and>
   (get_book_mood_tags m title author (ext s) = (Inl e, w') \<longrightarrow>
      fst (get_book_mood_tags_safe (Some m) title author s) = Inr []) \<and>
   (service_import app = Some m \<and> map_of fs ''title'' = Some title \<and> truthy title \<and>
    get_book_mood_tags m title (dict_get fs ''author'' (JStr '''')) (ext s) = (Inl e, w') \<longrightarrow>
      fst (handle_mood_tags app (Inr (JObj fs)) s) =
        Inr \<lparr>status = 200,
             body = JObj [(''success'', JBool True), (''mood_tags'', JArr [])]\<rparr>)"
proof (intro conjI impI)
  assume "get_book_mood_tags m title author (ext s) = (Inr tags, w')"
  then show "fst (get_book_mood_tags_safe (Some m) title author s) = Inr tags"
    by (simp add: get_book_mood_tags_safe_returns)
next
  show "fst (get_book_mood_tags_safe None title author s) = Inr []"
    by (simp add: get_book_mood_tags_safe_absent)
next
  assume "get_book_mood_tags m title author (ext s) = (Inl e, w')"
  then show "fst (get_book_mood_tags_safe (Some m) title author s) = Inr []"
    by (simp add: get_book_mood_tags_safe_raises)
next
  assume a: "service_import app = Some m \<and> map_of fs ''title'' = Some title \<and> truthy title \<and>
    get_book_mood_tags m title (dict_get fs ''author'' (JStr '''')) (ext s) = (Inl e, w')"
  then have "get_book_mood_tags_safe (Some m) title (dict_get fs ''author'' (JStr '''')) s =
     (Inr [], print (''Error getting mood tags: '' @ message e) (s\<lparr>ext := w'\<rparr>))"
    by (simp add: get_book_mood_tags_safe_raises)
  moreover from a have "dict_get fs ''title'' (JStr '''') = title"
    by (simp add: dict_get_def)
  ultimately show "fst (handle_mood_tags app (Inr (JObj fs)) s) =
        Inr \<lparr>status = 200,
             body = JObj [(''success'', JBool True), (''mood_tags'', JArr [])]\<rparr>"
    using a by (simp add: handle_mood_tags_def)
qed

theorem get_book_mood_tags_safe_swallows_witness:
  "fst (get_book_mood_tags_safe (Some limited) (JStr ''Emma'') (JStr ''Jane Austen'')
     (after_calls 0)) =
     Inr [''cozy'', ''wistful''] \<and>
   get_book_mood_tags limited (JStr ''Emma'') (JStr ''Jane Austen'') 2 =
     (Inl (Exception ''rate limit exceeded''), 3) \<and>
   fst (get_book_mood_tags_safe (Some limited) (JStr ''Emma'') (JStr ''Jane Austen'')
     (after_calls 2)) =
     Inr [] \<and>
   fst (handle_mood_tags online
     (Inr (JObj [(''title'', JStr ''Emma''), (''author'', JStr ''Jane Austen'')]))
     (after_calls 2)) =
     Inr \<lparr>status = 200, body = JObj [(''success'', JBool True), (''mood_tags'', JArr [])]\<rparr>"
proof -
  let ?emma = "JStr ''Emma''"
  let ?austen = "JStr ''Jane Austen''"
  let ?fs = "[(''title'', ?emma), (''author'', ?austen)]"
  have ok: "get_book_mood_tags limited ?emma ?austen (ext (after_calls 0)) =
     (Inr [''cozy'', ''wistful''], 1)"
    by (simp add: limited_def limited_tags_def after_calls_def)
  have bad: "get_book_mood_tags limited ?emma ?austen (ext (after_calls 2)) =
     (Inl (Exception ''rate limit exceeded''), 3)"
    by (simp add: limited_def limited_tags_def after_calls_def)
  have title: "map_of ?fs ''title'' = Some ?emma" and nonempty: "truthy ?emma"
    and author: "dict_get ?fs ''author'' (JStr '''') = ?austen"
    and imported: "service_import online = Some limited"
    by (simp_all add: dict_get_def online_def)
  have a: "fst (get_book_mood_tags_safe (Some limited) ?emma ?austen (after_calls 0)) =
     Inr [''cozy'', ''wistful'']"
    using get_book_mood_tags_safe_swallows
            [where m = limited and title = ?emma and author = ?austen
               and s = "after_calls 0" and tags = "[''cozy'', ''wistful'']" and w' = 1]
          ok
    by blast
  have b: "fst (get_book_mood_tags_safe (Some limited) ?emma ?austen (after_calls 2)) = Inr []"
    using get_book_mood_tags_safe_swallows
            [where m = limited and title = ?emma and author = ?austen
               and s = "after_calls 2" and e = "Exception ''rate limit exceeded''" and w' = 3]
          bad
    by blast
  have c: "fst (handle_mood_tags online (Inr (JObj ?fs)) (after_calls 2)) =
     Inr \<lparr>status = 200, body = JObj [(''success'', JBool True), (''mood_tags'', JArr [])]\<rparr>"
    using get_book_mood_tags_safe_swallows
            [where m = limited and title = ?emma and app = online and fs = ?fs
               and s = "after_calls 2" and e = "Exception ''rate limit exceeded''" and w' = 3]
          bad author title nonempty imported
    by simp
  from a bad b c show ?thesis by (simp add: after_calls_def)
qed

section \<open>The handlers\<close>

lemma handle_analyze_mood_absent:
  "ai_service app = None \<Longrightarrow>
   handle_analyze_mood app request_json s =
     (Inr \<lparr>status = 503,
           body = JObj [(''success'', JBool False),
                        (''error'', JStr ''Mood analysis not available - missing dependencies'')]\<rparr>,
      s)"
  by (simp add: handle_analyze_mood_def)

lemma handle_analyze_mood_no_title:
  "ai_service app = Some service \<Longrightarrow> \<not> truthy (dict_get fs ''title'' (JStr '''')) \<Longrightarrow>
   handle_analyze_mood app (Inr (JObj fs)) s =
     (Inr \<lparr>status = 400, body = JObj [(''error'', JStr ''Title is required'')]\<rparr>, s)"
  by (simp add: handle_analyze_mood_def)

lemma handle_analyze_mood_called:
  "ai_service app = Some service \<Longrightarrow> truthy (dict_get fs ''title'' (JStr '''')) \<Longrightarrow>
   analyze_book_mood service (dict_get fs ''title'' (JStr ''''))
     (dict_get fs ''author'' (JStr '''')) (ext s) = (outcome, w') \<Longrightarrow>
   handle_analyze_mood app (Inr (JObj fs)) s =
     (Inr (case outcome of
             Inr mood_analysis \<Rightarrow>
               if truthy mood_analysis then
                 \<lparr>status = 200,
                  body = JObj [(''success'', JBool True), (''mood_analysis'', mood_analysis)]\<rparr>
               else
                 \<lparr>status = 404,
                  body = JObj [(''success'', JBool False),
                               (''error'', JStr ''Could not analyze mood for this book'')]\<rparr>
           | Inl e \<Rightarrow>
               \<lparr>status = 500,
                body = JObj [(''success'', JBool False), (''error'', JStr (message e))]\<rparr>),
      s\<lparr>ext := w'\<rparr>)"
  by (simp add: handle_analyze_mood_def call_ext_def Let_def split: sum.splits)

lemma get_method_cases:
  obtains (dict) fs where "data = JObj fs" "get_method data = Inr fs"
  | (other) "get_method data = Inl (no_attribute data ''get'')"
  by (cases data) simp_all

lemma handle_analyze_mood_raises:
  "ai_service app = Some service \<Longrightarrow>
   request_json = Inl e \<or> request_json = Inr data \<and> get_method data = Inl e \<Longrightarrow>
   handle_analyze_mood app request_json s = (Inl e, s)"
  by (auto simp: handle_analyze_mood_def)

text \<open>
  C6. \<^verbatim>\<open>/api/v1/analyze-mood\<close> answers, in this order: 503 when the analyzer is absent;
  400 when the title is missing or empty (false in Python's truth test); then, from the
  analyzer's call, 404 when it returns a result that is empty (false in the same test),
  500 when it raises, and otherwise 200 with \<^verbatim>\<open>{success: true, mood_analysis: result}\<close>.
  The body of the request is a JSON object with the fields \<open>fs\<close>.
\<close>

theorem handle_analyze_mood_status:
  "(ai_service app = None \<longrightarrow>
      (\<exists>r. fst (handle_analyze_mood app request_json s) = Inr r \<and> status r = 503)) \<and>
   (ai_service app = Some service \<and> \<not> truthy (dict_get fs ''title'' (JStr '''')) \<longrightarrow>
      (\<exists>r. fst (handle_analyze_mood app (Inr (JObj fs)) s) = Inr r \<and> status r = 400)) \<and>
   (ai_service app = Some service \<and> truthy (dict_get fs ''title'' (JStr '''')) \<and>
    analyze_book_mood service (dict_get fs ''title'' (JStr ''''))
      (dict_get fs ''author'' (JStr '''')) (ext s) = (outcome, w') \<longrightarrow>
      (case outcome of
         Inl e \<Rightarrow>
           (\<exists>r. fst (handle_analyze_mood app (Inr (JObj fs)) s) = Inr r \<and> status r = 500)
       | Inr result \<Rightarrow>
           if truthy result then
             fst (handle_analyze_mood app (Inr (JObj fs)) s) =
               Inr \<lparr>status = 200,
                    body = JObj [(''success'', JBool True), (''mood_analysis'', result)]\<rparr>
           else
             (\<exists>r. fst (handle_analyze_mood app (Inr (JObj fs)) s) = Inr r \<and> status r = 404)))"
proof (intro conjI impI)
  assume "ai_service app = None"
  then show "\<exists>r. fst (handle_analyze_mood app request_json s) = Inr r \<and> status r = 503"
    by (simp add: handle_analyze_mood_absent)
next
  assume "ai_service app = Some service \<and> \<not> truthy (dict_get fs ''title'' (JStr ''''))"
  then show "\<exists>r. fst (handle_analyze_mood app (Inr (JObj fs)) s) = Inr r \<and> status r = 400"
    by (simp add: handle_analyze_mood_no_title)
next
  assume called: "ai_service app = Some service \<and> truthy (dict_get fs ''title'' (JStr '''')) \<and>
    analyze_book_mood service (dict_get fs ''title'' (JStr ''''))
      (dict_get fs ''author'' (JStr '''')) (ext s) = (outcome, w')"
  note answer = handle_analyze_mood_called
    [of app service fs s outcome w', OF called [THEN conjunct1]
       called [THEN conjunct2, THEN conjunct1] called [THEN conjunct2, THEN conjunct2]]
  show "case outcome of
         Inl e \<Rightarrow>
           (\<exists>r. fst (handle_analyze_mood app (Inr (JObj fs)) s) = Inr r \<and> status r = 500)
       | Inr result \<Rightarrow>
           if truthy result then
             fst (handle_analyze_mood app (Inr (JObj fs)) s) =
               Inr \<lparr>status = 200,
                    body = JObj [(''success'', JBool True), (''mood_analysis'', result)]\<rparr>
           else
             (\<exists>r. fst (handle_analyze_mood app (Inr (JObj fs)) s) = Inr r \<and> status r = 404)"
    by (cases outcome) (simp_all add: answer)
qed

theorem handle_analyze_mood_status_witness:
  "(\<exists>r. fst (handle_analyze_mood offline (Inr (JObj [(''title'', JStr ''Emma'')]))
            (after_calls 0)) = Inr r \<and> status r = 503) \<and>
   (\<exists>r. fst (handle_analyze_mood online (Inr (JObj [(''author'', JStr ''Jane Austen'')]))
            (after_calls 0)) = Inr r \<and> status r = 400) \<and>
   fst (handle_analyze_mood online (Inr (JObj [(''title'', JStr ''Emma'')])) (after_calls 0)) =
     Inr \<lparr>status = 200,
          body = JObj [(''success'', JBool True),
                       (''mood_analysis'', JObj [(''primary_mood'', JStr ''cozy'')])]\<rparr> \<and>
   (\<exists>r. fst (handle_analyze_mood online (Inr (JObj [(''title'', JStr ''Emma'')]))
            (after_calls 1)) = Inr r \<and> status r = 404) \<and>
   (\<exists>r. fst (handle_analyze_mood online (Inr (JObj [(''title'', JStr ''Emma'')]))
            (after_calls 2)) = Inr r \<and> status r = 500)"
proof -
  let ?emma = "[(''title'', JStr ''Emma'')]"
  let ?untitled = "[(''author'', JStr ''Jane Austen'')]"
  have off: "ai_service offline = None"
    by (simp add: offline_def)
  have on: "ai_service online = Some limited_service"
    by (simp add: online_def)
  have untitled: "\<not> truthy (dict_get ?untitled ''title'' (JStr ''''))"
    and titled: "truthy (dict_get ?emma ''title'' (JStr ''''))"
    by (simp_all add: dict_get_def)
  have call0: "analyze_book_mood limited_service (dict_get ?emma ''title'' (JStr ''''))
      (dict_get ?emma ''author'' (JStr '''')) (ext (after_calls 0)) =
      (Inr (JObj [(''primary_mood'', JStr ''cozy'')]), 1)"
    and call1: "analyze_book_mood limited_service (dict_get ?emma ''title'' (JStr ''''))
      (dict_get ?emma ''author'' (JStr '''')) (ext (after_calls 1)) = (Inr JNull, 2)"
    and call2: "analyze_book_mood limited_service (dict_get ?emma ''title'' (JStr ''''))
      (dict_get ?emma ''author'' (JStr '''')) (ext (after_calls 2)) =
      (Inl (Exception ''rate limit exceeded''), 3)"
    by (simp_all add: limited_service_def limited_analysis_def after_calls_def)
  have a: "\<exists>r. fst (handle_analyze_mood offline (Inr (JObj ?emma)) (after_calls 0)) = Inr r \<and>
     status r = 503"
    using handle_analyze_mood_status
            [where app = offline and request_json = "Inr (JObj ?emma)" and s = "after_calls 0"]
          off
    by blast
  have b: "\<exists>r. fst (handle_analyze_mood online (Inr (JObj ?untitled)) (after_calls 0)) = Inr r \<and>
     status r = 400"
    using handle_analyze_mood_status
            [where app = online and service = limited_service and fs = ?untitled
               and s = "after_calls 0"]
          on untitled
    by blast
  have c: "fst (handle_analyze_mood online (Inr (JObj ?emma)) (after_calls 0)) =
     Inr \<lparr>status = 200,
          body = JObj [(''success'', JBool True),
                       (''mood_analysis'', JObj [(''primary_mood'', JStr ''cozy'')])]\<rparr>"
    using handle_analyze_mood_status
            [where app = online and service = limited_service and fs = ?emma
               and s = "after_calls 0"
               and outcome = "Inr (JObj [(''primary_mood'', JStr ''cozy'')])" and w' = 1]
          on titled call0
    by simp
  have d: "\<exists>r. fst (handle_analyze_mood online (Inr (JObj ?emma)) (after_calls 1)) = Inr r \<and>
     status r = 404"
    using handle_analyze_mood_status
            [where app = online and service = limited_service and fs = ?emma
               and s = "after_calls 1" and outcome = "Inr JNull" and w' = 2]
          on titled call1
    by simp
  have e: "\<exists>r. fst (handle_analyze_mood online (Inr (JObj ?emma)) (after_calls 2)) = Inr r \<and>
     status r = 500"
    using handle_analyze_mood_status
            [where app = online and service = limited_service and fs = ?emma
               and s = "after_calls 2" and outcome = "Inl (Exception ''rate limit exceeded'')"
               and w' = 3]
          on titled call2
    by simp
  from a b c d e show ?thesis by blast
qed

text \<open>
  C8. On \<^verbatim>\<open>/api/v1/analyze-mood\<close> the availability check comes first: while the analyzer
  is absent every request, with or without a title and whatever its body, is answered
  503 with the envelope \<^verbatim>\<open>{success: false, error: ...}\<close> and nothing else happens; so a 400
  answer, which is the one for the missing title, means that the analyzer is available.
\<close>

theorem handle_analyze_mood_availability_first:
  "(ai_service app = None \<longrightarrow>
      handle_analyze_mood app request_json s =
        (Inr \<lparr>status = 503,
              body = JObj [(''success'', JBool False),
                           (''error'',
                            JStr ''Mood analysis not available - missing dependencies'')]\<rparr>,
         s) \<and>
      is_error_envelope
        (JObj [(''success'', JBool False),
               (''error'', JStr ''Mood analysis not available - missing dependencies'')])) \<and>
   (fst (handle_analyze_mood app request_json s) = Inr r \<and> status r = 400 \<longrightarrow>
      ai_service app \<noteq> None \<and> body r = JObj [(''error'', JStr ''Title is required'')])"
proof (intro conjI impI)
  assume absent: "ai_service app = None"
  then show "handle_analyze_mood app request_json s =
        (Inr \<lparr>status = 503,
              body = JObj [(''success'', JBool False),
                           (''error'',
                            JStr ''Mood analysis not available - missing dependencies'')]\<rparr>,
         s)"
    by (rule handle_analyze_mood_absent)
  show "is_error_envelope
        (JObj [(''success'', JBool False),
               (''error'', JStr ''Mood analysis not available - missing dependencies'')])"
    by (auto simp: is_error_envelope_def)
next
  assume bad_request: "fst (handle_analyze_mood app request_json s) = Inr r \<and> status r = 400"
  show "ai_service app \<noteq> None"
  proof
    assume "ai_service app = None"
    then have "fst (handle_analyze_mood app request_json s) =
        Inr \<lparr>status = 503,
              body = JObj [(''success'', JBool False),
                           (''error'',
                            JStr ''Mood analysis not available - missing dependencies'')]\<rparr>"
      by (simp add: handle_analyze_mood_absent)
    with bad_request show False by auto
  qed
  then obtain service where service: "ai_service app = Some service" by blast
  show "body r = JObj [(''error'', JStr ''Title is required'')]"
  proof (cases request_json)
    case (Inl e)
    with service bad_request show ?thesis
      by (simp add: handle_analyze_mood_raises)
  next
    case (Inr data)
    show ?thesis
    proof (cases data rule: get_method_cases)
      case other
      with service Inr bad_request show ?thesis
        by (simp add: handle_analyze_mood_raises)
    next
      case (dict fs)
      show ?thesis
      proof (cases "truthy (dict_get fs ''title'' (JStr ''''))")
        case False
        with service Inr dict bad_request show ?thesis
          by (auto simp: handle_analyze_mood_no_title)
      next
        case True
        obtain outcome w' where
          "analyze_book_mood service (dict_get fs ''title'' (JStr ''''))
             (dict_get fs ''author'' (JStr '''')) (ext s) = (outcome, w')"
          by (cases "analyze_book_mood service (dict_get fs ''title'' (JStr ''''))
             (dict_get fs ''author'' (JStr '''')) (ext s)")
        from handle_analyze_mood_called [OF service True this] Inr dict bad_request
        show ?thesis
          by (auto split: sum.splits if_splits)
      qed
    qed
  qed
qed

theorem handle_analyze_mood_availability_first_witness:
  "handle_analyze_mood offline (Inr (JObj [])) (after_calls 0) =
     (Inr \<lparr>status = 503,
           body = JObj [(''success'', JBool False),
                        (''error'', JStr ''Mood analysis not available - missing dependencies'')]\<rparr>,
      after_calls 0) \<and>
   handle_analyze_mood offline (Inr JNull) (after_calls 0) =
     (Inr \<lparr>status = 503,
           body = JObj [(''success'', JBool False),
                        (''error'', JStr ''Mood analysis not available - missing dependencies'')]\<rparr>,
      after_calls 0) \<and>
   fst (handle_analyze_mood online (Inr (JObj [])) (after_calls 0)) =
     Inr \<lparr>status = 400, body = JObj [(''error'', JStr ''Title is required'')]\<rparr> \<and>
   ai_service online \<noteq> None"
proof -
  let ?unavailable = "\<lparr>status = 503,
     body = JObj [(''success'', JBool False),
                  (''error'', JStr ''Mood analysis not available - missing dependencies'')]\<rparr>"
  let ?untitled = "\<lparr>status = 400, body = JObj [(''error'', JStr ''Title is required'')]\<rparr>"
  have off: "ai_service offline = None"
    by (simp add: offline_def)
  have a: "handle_analyze_mood offline (Inr (JObj [])) (after_calls 0) =
     (Inr ?unavailable, after_calls 0)"
    using handle_analyze_mood_availability_first
            [where app = offline and request_json = "Inr (JObj [])" and s = "after_calls 0"]
          off
    by blast
  have b: "handle_analyze_mood offline (Inr JNull) (after_calls 0) =
     (Inr ?unavailable, after_calls 0)"
    using handle_analyze_mood_availability_first
            [where app = offline and request_json = "Inr JNull" and s = "after_calls 0"]
          off
    by blast
  have bad_request: "fst (handle_analyze_mood online (Inr (JObj [])) (after_calls 0)) =
     Inr ?untitled"
    by (simp add: handle_analyze_mood_def online_def dict_get_def)
  then have "fst (handle_analyze_mood online (Inr (JObj [])) (after_calls 0)) = Inr ?untitled \<and>
     status ?untitled = 400"
    by simp
  then have c: "ai_service online \<noteq> None"
    using handle_analyze_mood_availability_first
            [where app = online and request_json = "Inr (JObj [])" and s = "after_calls 0"
               and r = ?untitled]
    by blast
  from a b bad_request c show ?thesis by blast
qed

lemma handle_mood_search_no_query:
  "\<not> truthy (dict_get fs ''query'' (JStr '''')) \<Longrightarrow>
   handle_mood_search (Inr (JObj fs)) s =
     (Inr \<lparr>status = 400, body = JObj [(''error'', JStr ''Query is required'')]\<rparr>, s)"
  by (simp add: handle_mood_search_def)

lemma handle_mood_search_text:
  "dict_get fs ''query'' (JStr '''') = JStr q \<Longrightarrow> q \<noteq> [] \<Longrightarrow>
   handle_mood_search (Inr (JObj fs)) s =
     (Inr \<lparr>status = 200,
           body = JObj [(''success'', JBool True),
                        (''recommendations'',
                         JStr (case scan_moods mood_queries (lower q) of
                                 Some result \<Rightarrow> result
                               | None \<Rightarrow> ''AI-optimized results for: '' @ q)),
                        (''query'', JStr q)]\<rparr>,
      s)"
  by (simp add: handle_mood_search_def get_ai_recommendations_text split: option.splits)

lemma handle_mood_search_not_text:
  "truthy (dict_get fs ''query'' (JStr '''')) \<Longrightarrow>
   \<forall>q. dict_get fs ''query'' (JStr '''') \<noteq> JStr q \<Longrightarrow>
   handle_mood_search (Inr (JObj fs)) s =
     (Inr \<lparr>status = 500,
           body = JObj [(''success'', JBool False),
                        (''error'',
                         JStr (message
                           (no_attribute (dict_get fs ''query'' (JStr '''')) ''lower'')))]\<rparr>,
      s)"
  by (cases "dict_get fs ''query'' (JStr '''')")
     (simp_all add: handle_mood_search_def get_ai_recommendations_def)

lemma handle_mood_search_raises:
  "request_json = Inl e \<or> request_json = Inr data \<and> get_method data = Inl e \<Longrightarrow>
   handle_mood_search request_json s = (Inl e, s)"
  by (auto simp: handle_mood_search_def)

lemma handle_mood_search_cases:
  obtains
    (raises) e where "handle_mood_search request_json s = (Inl e, s)"
  | (no_query) fs where "request_json = Inr (JObj fs)"
      "\<not> truthy (dict_get fs ''query'' (JStr ''''))"
      "handle_mood_search request_json s =
         (Inr \<lparr>status = 400, body = JObj [(''error'', JStr ''Query is required'')]\<rparr>, s)"
  | (string_query) fs q where "request_json = Inr (JObj fs)"
      "dict_get fs ''query'' (JStr '''') = JStr q" "q \<noteq> []"
      "handle_mood_search request_json s =
         (Inr \<lparr>status = 200,
               body = JObj [(''success'', JBool True),
                            (''recommendations'',
                             JStr (case scan_moods mood_queries (lower q) of
                                     Some result \<Rightarrow> result
                                   | None \<Rightarrow> ''AI-optimized results for: '' @ q)),
                            (''query'', JStr q)]\<rparr>,
          s)"
  | (not_text) fs where "request_json = Inr (JObj fs)"
      "truthy (dict_get fs ''query'' (JStr ''''))"
      "\<forall>q. dict_get fs ''query'' (JStr '''') \<noteq> JStr q"
      "handle_mood_search request_json s =
         (Inr \<lparr>status = 500,
               body = JObj [(''success'', JBool False),
                            (''error'',
                             JStr (message
                               (no_attribute (dict_get fs ''query'' (JStr '''')) ''lower'')))]\<rparr>,
          s)"
proof (cases request_json)
  case (Inl e)
  then show ?thesis using raises by (simp add: handle_mood_search_raises)
next
  case (Inr data)
  show ?thesis
  proof (cases data rule: get_method_cases)
    case other
    with Inr show ?thesis using raises by (simp add: handle_mood_search_raises)
  next
    case (dict fs)
    show ?thesis
    proof (cases "truthy (dict_get fs ''query'' (JStr ''''))")
      case False
      with Inr dict show ?thesis using no_query by (simp add: handle_mood_search_no_query)
    next
      case True
      show ?thesis
      proof (cases "\<exists>q. dict_get fs ''query'' (JStr '''') = JStr q")
        case True
        then obtain q where q: "dict_get fs ''query'' (JStr '''') = JStr q" by blast
        with \<open>truthy (dict_get fs ''query'' (JStr ''''))\<close> have "q \<noteq> []" by simp
        with q Inr dict show ?thesis using string_query by (simp add: handle_mood_search_text)
      next
        case False
        with True Inr dict show ?thesis using not_text
          by (simp add: handle_mood_search_not_text)
      qed
    qed
  qed
qed

lemma dict_get_absent_or_empty:
  "map_of fs key = None \<or> map_of fs key = Some (JStr []) \<Longrightarrow>
   \<not> truthy (dict_get fs key (JStr ''''))"
  by (auto simp: dict_get_def)

lemma dict_get_present:
  "truthy (dict_get fs key (JStr '''')) \<Longrightarrow> map_of fs key = Some (dict_get fs key (JStr ''''))"
  by (auto simp: dict_get_def split: option.splits)

text \<open>
  C9. \<^verbatim>\<open>/api/v1/mood-search\<close>, on a body that is a JSON object, answers 400 with
  \<^verbatim>\<open>{"error": "Query is required"}\<close> when the query field is absent or the empty string.
  The handler answers 200, 400 or 500. Whenever it answers 200, the query is a non-empty
  string and the recommendations are those of \<^verbatim>\<open>get_ai_recommendations\<close> for it: the
  function's results, and with them the fallback for a query without a keyword, are
  reached through this handler with non-empty queries only. Whenever it answers 500, the
  query is a value other than a string, which \<^verbatim>\<open>get_ai_recommendations\<close> refused.
\<close>

theorem handle_mood_search_query_required:
  "(map_of fs ''query'' = None \<or> map_of fs ''query'' = Some (JStr []) \<longrightarrow>
      handle_mood_search (Inr (JObj fs)) s =
        (Inr \<lparr>status = 400, body = JObj [(''error'', JStr ''Query is required'')]\<rparr>, s)) \<and>
   (fst (handle_mood_search request_json s) = Inr r \<longrightarrow> status r \<in> {200, 400, 500}) \<and>
   (fst (handle_mood_search request_json s) = Inr r \<and> status r = 200 \<longrightarrow>
      (\<exists>body_fields q recommendations.
         request_json = Inr (JObj body_fields) \<and> map_of body_fields ''query'' = Some (JStr q) \<and>
         q \<noteq> [] \<and> get_ai_recommendations (JStr q) s = (Inr recommendations, s) \<and>
         r = \<lparr>status = 200,
              body = JObj [(''success'', JBool True),
                           (''recommendations'', JStr recommendations),
                           (''query'', JStr q)]\<rparr>)) \<and>
   (fst (handle_mood_search request_json s) = Inr r \<and> status r = 500 \<longrightarrow>
      (\<exists>body_fields q.
         request_json = Inr (JObj body_fields) \<and> map_of body_fields ''query'' = Some q \<and>
         truthy q \<and> (\<forall>t. q \<noteq> JStr t) \<and>
         fst (get_ai_recommendations q s) = Inl (no_attribute q ''lower'') \<and>
         r = \<lparr>status = 500,
              body = JObj [(''success'', JBool False),
                           (''error'', JStr (message (no_attribute q ''lower'')))]\<rparr>))"
proof (intro conjI impI)
  assume "map_of fs ''query'' = None \<or> map_of fs ''query'' = Some (JStr [])"
  then have "\<not> truthy (dict_get fs ''query'' (JStr ''''))"
    by (rule dict_get_absent_or_empty)
  then show "handle_mood_search (Inr (JObj fs)) s =
        (Inr \<lparr>status = 400, body = JObj [(''error'', JStr ''Query is required'')]\<rparr>, s)"
    by (rule handle_mood_search_no_query)
next
  assume "fst (handle_mood_search request_json s) = Inr r"
  then show "status r \<in> {200, 400, 500}"
    by (cases request_json s rule: handle_mood_search_cases) auto
next
  assume ok: "fst (handle_mood_search request_json s) = Inr r \<and> status r = 200"
  then show "\<exists>body_fields q recommendations.
         request_json = Inr (JObj body_fields) \<and> map_of body_fields ''query'' = Some (JStr q) \<and>
         q \<noteq> [] \<and> get_ai_recommendations (JStr q) s = (Inr recommendations, s) \<and>
         r = \<lparr>status = 200,
              body = JObj [(''success'', JBool True),
                           (''recommendations'', JStr recommendations),
                           (''query'', JStr q)]\<rparr>"
  proof (cases request_json s rule: handle_mood_search_cases)
    case (string_query body_fields q)
    from string_query(2,3) have "truthy (dict_get body_fields ''query'' (JStr ''''))" by simp
    then have "map_of body_fields ''query'' = Some (dict_get body_fields ''query'' (JStr ''''))"
      by (rule dict_get_present)
    with string_query(2) have present: "map_of body_fields ''query'' = Some (JStr q)" by simp
    have "get_ai_recommendations (JStr q) s =
            (Inr (case scan_moods mood_queries (lower q) of
                    Some result \<Rightarrow> result
                  | None \<Rightarrow> ''AI-optimized results for: '' @ q), s)"
      by (simp add: get_ai_recommendations_text split: option.splits)
    with string_query present ok show ?thesis by auto
  qed auto
next
  assume failed: "fst (handle_mood_search request_json s) = Inr r \<and> status r = 500"
  then show "\<exists>body_fields q.
         request_json = Inr (JObj body_fields) \<and> map_of body_fields ''query'' = Some q \<and>
         truthy q \<and> (\<forall>t. q \<noteq> JStr t) \<and>
         fst (get_ai_recommendations q s) = Inl (no_attribute q ''lower'') \<and>
         r = \<lparr>status = 500,
              body = JObj [(''success'', JBool False),
                           (''error'', JStr (message (no_attribute q ''lower'')))]\<rparr>"
  proof (cases request_json s rule: handle_mood_search_cases)
    case (not_text body_fields)
    let ?q = "dict_get body_fields ''query'' (JStr '''')"
    from not_text(2) have present: "map_of body_fields ''query'' = Some ?q"
      by (rule dict_get_present)
    from not_text(3) have "fst (get_ai_recommendations ?q s) = Inl (no_attribute ?q ''lower'')"
      by (cases ?q) (simp_all add: get_ai_recommendations_def)
    with not_text present failed show ?thesis by auto
  qed auto
qed

theorem handle_mood_search_query_required_witness:
  "handle_mood_search (Inr (JObj [(''query'', JStr '''')])) (after_calls 0) =
     (Inr \<lparr>status = 400, body = JObj [(''error'', JStr ''Query is required'')]\<rparr>,
      after_calls 0) \<and>
   handle_mood_search (Inr (JObj [])) (after_calls 0) =
     (Inr \<lparr>status = 400, body = JObj [(''error'', JStr ''Query is required'')]\<rparr>,
      after_calls 0) \<and>
   fst (handle_mood_search (Inr (JObj [(''query'', JStr ''sea'')])) (after_calls 0)) =
     Inr \<lparr>status = 200,
          body = JObj [(''success'', JBool True),
                       (''recommendations'', JStr ''AI-optimized results for: sea''),
                       (''query'', JStr ''sea'')]\<rparr> \<and>
   get_ai_recommendations (JStr ''sea'') (after_calls 0) =
     (Inr ''AI-optimized results for: sea'', after_calls 0) \<and>
   fst (handle_mood_search (Inr (JObj [(''query'', JNum 123)])) (after_calls 0)) =
     Inr \<lparr>status = 500,
          body = JObj [(''success'', JBool False),
                       (''error'',
                        JStr (quote ''int'' @ '' object has no attribute '' @ quote ''lower''))]\<rparr> \<and>
   fst (get_ai_recommendations (JNum 123) (after_calls 0)) = Inl (no_attribute (JNum 123) ''lower'')"
proof -
  let ?s = "after_calls 0"
  let ?sea = "Inr (JObj [(''query'', JStr ''sea'')]) :: exn + json"
  let ?number = "Inr (JObj [(''query'', JNum 123)]) :: exn + json"
  let ?found = "\<lparr>status = 200,
          body = JObj [(''success'', JBool True),
                       (''recommendations'', JStr ''AI-optimized results for: sea''),
                       (''query'', JStr ''sea'')]\<rparr>"
  let ?refused = "\<lparr>status = 500,
          body = JObj [(''success'', JBool False),
                       (''error'',
                        JStr (quote ''int'' @ '' object has no attribute '' @ quote ''lower''))]\<rparr>"
  have empty: "map_of [(''query'', JStr '''')] ''query'' = None \<or>
               map_of [(''query'', JStr '''')] ''query'' = Some (JStr [])"
    by simp
  have a: "handle_mood_search (Inr (JObj [(''query'', JStr '''')])) ?s =
     (Inr \<lparr>status = 400, body = JObj [(''error'', JStr ''Query is required'')]\<rparr>, ?s)"
    using handle_mood_search_query_required
            [where fs = "[(''query'', JStr '''')]" and s = ?s] empty
    by blast
  have missing: "map_of ([] :: (string \<times> json) list) ''query'' = None \<or>
                 map_of ([] :: (string \<times> json) list) ''query'' = Some (JStr [])"
    by simp
  have b: "handle_mood_search (Inr (JObj [])) ?s =
     (Inr \<lparr>status = 400, body = JObj [(''error'', JStr ''Query is required'')]\<rparr>, ?s)"
    using handle_mood_search_query_required [where fs = "[]" and s = ?s] missing
    by blast
  have ok: "fst (handle_mood_search ?sea ?s) = Inr ?found"
    by (simp add: handle_mood_search_def dict_get_def get_ai_recommendations_def
          mood_queries_def lower_def lower_char_def)
  then have "fst (handle_mood_search ?sea ?s) = Inr ?found \<and> status ?found = 200"
    by simp
  then have "\<exists>body_fields q recommendations.
         ?sea = Inr (JObj body_fields) \<and> map_of body_fields ''query'' = Some (JStr q) \<and>
         q \<noteq> [] \<and> get_ai_recommendations (JStr q) ?s = (Inr recommendations, ?s) \<and>
         ?found = \<lparr>status = 200,
              body = JObj [(''success'', JBool True),
                           (''recommendations'', JStr recommendations),
                           (''query'', JStr q)]\<rparr>"
    using handle_mood_search_query_required
            [where request_json = ?sea and s = ?s and r = ?found]
    by blast
  then have c: "get_ai_recommendations (JStr ''sea'') ?s =
     (Inr ''AI-optimized results for: sea'', ?s)"
    by auto
  have failed: "fst (handle_mood_search ?number ?s) = Inr ?refused"
    by (simp add: handle_mood_search_def dict_get_def get_ai_recommendations_def
          no_attribute_def)
  then have "fst (handle_mood_search ?number ?s) = Inr ?refused \<and> status ?refused = 500"
    by simp
  then have "\<exists>body_fields q.
         ?number = Inr (JObj body_fields) \<and> map_of body_fields ''query'' = Some q \<and>
         truthy q \<and> (\<forall>t. q \<noteq> JStr t) \<and>
         fst (get_ai_recommendations q ?s) = Inl (no_attribute q ''lower'') \<and>
         ?refused = \<lparr>status = 500,
              body = JObj [(''success'', JBool False),
                           (''error'', JStr (message (no_attribute q ''lower'')))]\<rparr>"
    using handle_mood_search_query_required
            [where request_json = ?number and s = ?s and r = ?refused]
    by blast
  then have d: "fst (get_ai_recommendations (JNum 123) ?s) =
     Inl (no_attribute (JNum 123) ''lower'')"
    by auto
  from a b ok c failed d show ?thesis by blast
qed

section \<open>Error responses\<close>

lemma handle_analyze_mood_cases:
  obtains
    (raises) e where "fst (handle_analyze_mood app request_json s) = Inl e"
  | (absent) "fst (handle_analyze_mood app request_json s) =
      Inr \<lparr>status = 503,
           body = JObj [(''success'', JBool False),
                        (''error'', JStr ''Mood analysis not available - missing dependencies'')]\<rparr>"
  | (no_title) "fst (handle_analyze_mood app request_json s) =
      Inr \<lparr>status = 400, body = JObj [(''error'', JStr ''Title is required'')]\<rparr>"
  | (found) result where "fst (handle_analyze_mood app request_json s) =
      Inr \<lparr>status = 200,
           body = JObj [(''success'', JBool True), (''mood_analysis'', result)]\<rparr>"
  | (not_found) "fst (handle_analyze_mood app request_json s) =
      Inr \<lparr>status = 404,
           body = JObj [(''success'', JBool False),
                        (''error'', JStr ''Could not analyze mood for this book'')]\<rparr>"
  | (failed) e where "fst (handle_analyze_mood app request_json s) =
      Inr \<lparr>status = 500,
           body = JObj [(''success'', JBool False), (''error'', JStr (message e))]\<rparr>"
proof (cases "ai_service app")
  case None
  then show ?thesis using absent by (simp add: handle_analyze_mood_absent)
next
  case (Some service)
  show ?thesis
  proof (cases request_json)
    case (Inl e)
    with Some show ?thesis using raises by (simp add: handle_analyze_mood_raises)
  next
    case (Inr data)
    show ?thesis
    proof (cases data rule: get_method_cases)
      case other
      with Some Inr show ?thesis using raises by (simp add: handle_analyze_mood_raises)
    next
      case (dict fs)
      show ?thesis
      proof (cases "truthy (dict_get fs ''title'' (JStr ''''))")
        case False
        with Some Inr dict show ?thesis using no_title
          by (simp add: handle_analyze_mood_no_title)
      next
        case True
        obtain outcome w' where call:
          "analyze_book_mood service (dict_get fs ''title'' (JStr ''''))
             (dict_get fs ''author'' (JStr '''')) (ext s) = (outcome, w')"
          by (cases "analyze_book_mood service (dict_get fs ''title'' (JStr ''''))
             (dict_get fs ''author'' (JStr '''')) (ext s)")
        note answer = handle_analyze_mood_called [OF Some True call]
        show ?thesis
        proof (cases outcome)
          case (Inl e)
          with answer Inr dict show ?thesis using failed by simp
        next
          case inner: (Inr result)
          with answer Inr dict show ?thesis using found not_found
            by (cases "truthy result") simp_all
        qed
      qed
    qed
  qed
qed

lemma handle_mood_tags_cases:
  obtains
    (raises) e where "fst (handle_mood_tags app request_json s) = Inl e"
  | (no_title) "fst (handle_mood_tags app request_json s) =
      Inr \<lparr>status = 400, body = JObj [(''error'', JStr ''Title is required'')]\<rparr>"
  | (tags) mood_tags where "fst (handle_mood_tags app request_json s) =
      Inr \<lparr>status = 200,
           body = JObj [(''success'', JBool True),
                        (''mood_tags'', JArr (map JStr mood_tags))]\<rparr>"
proof (cases request_json)
  case (Inl e)
  then show ?thesis using raises by (simp add: handle_mood_tags_def)
next
  case (Inr data)
  show ?thesis
  proof (cases data rule: get_method_cases)
    case other
    with Inr show ?thesis using raises by (simp add: handle_mood_tags_def)
  next
    case (dict fs)
    show ?thesis
    proof (cases "truthy (dict_get fs ''title'' (JStr ''''))")
      case False
      with Inr dict show ?thesis using no_title by (simp add: handle_mood_tags_def)
    next
      case True
      obtain mood_tags s' where
        "get_book_mood_tags_safe (service_import app) (dict_get fs ''title'' (JStr ''''))
           (dict_get fs ''author'' (JStr '''')) s = (Inr mood_tags, s')"
        using get_book_mood_tags_safe_Inr by blast
      with True Inr dict show ?thesis using tags by (simp add: handle_mood_tags_def)
    qed
  qed
qed

lemma handle_generate_note_status:
  "fst (handle_generate_note app request_json s) = Inr r \<Longrightarrow> status r = 200"
  by (auto simp: handle_generate_note_def Let_def split: sum.splits prod.splits)

text \<open>
  Against C3 as it is stated: a request without the required field is answered 400 with
  a body that has the error message and no \<open>success\<close> field, which is not the envelope.
\<close>

theorem bad_request_body_has_no_success_field:
  "fst (handle_mood_tags online (Inr (JObj [(''author'', JStr ''Jane Austen'')]))
          (after_calls 0)) =
     Inr \<lparr>status = 400, body = JObj [(''error'', JStr ''Title is required'')]\<rparr> \<and>
   fst (handle_analyze_mood online (Inr (JObj [(''author'', JStr ''Jane Austen'')]))
          (after_calls 0)) =
     Inr \<lparr>status = 400, body = JObj [(''error'', JStr ''Title is required'')]\<rparr> \<and>
   fst (handle_mood_search (Inr (JObj [(''query'', JStr '''')])) (after_calls 0)) =
     Inr \<lparr>status = 400, body = JObj [(''error'', JStr ''Query is required'')]\<rparr> \<and>
   map_of [(''error'', JStr ''Title is required'')] ''success'' = None \<and>
   \<not> is_error_envelope (JObj [(''error'', JStr ''Title is required'')]) \<and>
   \<not> is_error_envelope (JObj [(''error'', JStr ''Query is required'')])"
  by (simp add: handle_mood_tags_def handle_analyze_mood_def handle_mood_search_def
        online_def dict_get_def is_error_envelope_def)

text \<open>
  C3, as amended. Of the responses that the handlers return themselves, every one with
  status 404, 500 or 503 has the envelope \<^verbatim>\<open>{success: false, error: message}\<close> as its
  body, and every one with status 400, which is the answer to a missing required field
  (the title on \<^verbatim>\<open>/api/v1/mood-tags\<close> and \<^verbatim>\<open>/api/v1/analyze-mood\<close>, the query on
  \<^verbatim>\<open>/api/v1/mood-search\<close>), has the body \<^verbatim>\<open>{error: message}\<close> without a \<open>success\<close> field.
  \<^verbatim>\<open>/api/v1/analyze-mood\<close> returns 200, 400, 404, 500 or 503, \<^verbatim>\<open>/api/v1/mood-search\<close> 200,
  400 or 500, \<^verbatim>\<open>/api/v1/mood-tags\<close> 200 or 400 and \<^verbatim>\<open>/api/v1/generate-note\<close> 200 only.
  An exception raised outside a handler's \<^verbatim>\<open>try\<close> leaves the handler; the statement is
  about the responses a handler returns and says nothing of that case.
\<close>

theorem error_response_bodies:
  "(fst (handle_analyze_mood app request_json s) = Inr r \<longrightarrow>
      status r \<in> {200, 400, 404, 500, 503} \<and>
      (status r \<in> {404, 500, 503} \<longrightarrow> is_error_envelope (body r)) \<and>
      (status r = 400 \<longrightarrow> body r = JObj [(''error'', JStr ''Title is required'')])) \<and>
   (fst (handle_mood_search request_json s) = Inr r \<longrightarrow>
      status r \<in> {200, 400, 500} \<and>
      (status r = 500 \<longrightarrow> is_error_envelope (body r)) \<and>
      (status r = 400 \<longrightarrow> body r = JObj [(''error'', JStr ''Query is required'')])) \<and>
   (fst (handle_mood_tags app request_json s) = Inr r \<longrightarrow>
      status r \<in> {200, 400} \<and>
      (status r = 400 \<longrightarrow> body r = JObj [(''error'', JStr ''Title is required'')])) \<and>
   (fst (handle_generate_note app request_json s) = Inr r \<longrightarrow> status r = 200)"
proof (intro conjI impI)
  assume r: "fst (handle_analyze_mood app request_json s) = Inr r"
  then have "status r \<in> {200, 400, 404, 500, 503} \<and>
      (status r \<in> {404, 500, 503} \<longrightarrow> is_error_envelope (body r)) \<and>
      (status r = 400 \<longrightarrow> body r = JObj [(''error'', JStr ''Title is required'')])"
    by (cases app request_json s rule: handle_analyze_mood_cases)
       (auto simp: is_error_envelope_def)
  then show "status r \<in> {200, 400, 404, 500, 503}"
    and "status r \<in> {404, 500, 503} \<Longrightarrow> is_error_envelope (body r)"
    and "status r = 400 \<Longrightarrow> body r = JObj [(''error'', JStr ''Title is required'')]"
    by blast+
next
  assume r: "fst (handle_mood_search request_json s) = Inr r"
  then have "status r \<in> {200, 400, 500} \<and>
      (status r = 500 \<longrightarrow> is_error_envelope (body r)) \<and>
      (status r = 400 \<longrightarrow> body r = JObj [(''error'', JStr ''Query is required'')])"
    by (cases request_json s rule: handle_mood_search_cases)
       (auto simp: is_error_envelope_def)
  then show "status r \<in> {200, 400, 500}"
    and "status r = 500 \<Longrightarrow> is_error_envelope (body r)"
    and "status r = 400 \<Longrightarrow> body r = JObj [(''error'', JStr ''Query is required'')]"
    by blast+
next
  assume r: "fst (handle_mood_tags app request_json s) = Inr r"
  then have "status r \<in> {200, 400} \<and>
      (status r = 400 \<longrightarrow> body r = JObj [(''error'', JStr ''Title is required'')])"
    by (cases app request_json s rule: handle_mood_tags_cases) auto
  then show "status r \<in> {200, 400}"
    and "status r = 400 \<Longrightarrow> body r = JObj [(''error'', JStr ''Title is required'')]"
    by blast+
next
  assume "fst (handle_generate_note app request_json s) = Inr r"
  then show "status r = 200"
    by (rule handle_generate_note_status)
qed

theorem error_response_bodies_witness:
  "fst (handle_analyze_mood online (Inr (JObj [(''title'', JStr ''Emma'')])) (after_calls 2)) =
     Inr \<lparr>status = 500,
          body = JObj [(''success'', JBool False), (''error'', JStr ''rate limit exceeded'')]\<rparr> \<and>
   is_error_envelope
     (JObj [(''success'', JBool False), (''error'', JStr ''rate limit exceeded'')]) \<and>
   fst (handle_mood_search (Inr (JObj [(''query'', JBool True)])) (after_calls 0)) =
     Inr \<lparr>status = 500,
          body = JObj [(''success'', JBool False),
                       (''error'',
                        JStr (quote ''bool'' @ '' object has no attribute '' @ quote ''lower''))]\<rparr> \<and>
   is_error_envelope
     (JObj [(''success'', JBool False),
            (''error'', JStr (quote ''bool'' @ '' object has no attribute '' @ quote ''lower''))]) \<and>
   fst (handle_mood_tags online (Inr (JObj [])) (after_calls 0)) =
     Inr \<lparr>status = 400, body = JObj [(''error'', JStr ''Title is required'')]\<rparr> \<and>
   fst (handle_generate_note online (Inr (JObj [(''description'', JStr ''A romance.'')]))
          (after_calls 0)) =
     Inr \<lparr>status = 200,
          body = JObj [(''vibe'', JStr ''A heartwarming story perfect for cozy reading.'')]\<rparr> \<and>
   fst (handle_mood_tags online (Inr (JArr [])) (after_calls 0)) =
     Inl (Exception (quote ''list'' @ '' object has no attribute '' @ quote ''get''))"
proof -
  let ?limit = "\<lparr>status = 500,
     body = JObj [(''success'', JBool False), (''error'', JStr ''rate limit exceeded'')]\<rparr>"
  let ?refused = "\<lparr>status = 500,
     body = JObj [(''success'', JBool False),
                  (''error'',
                   JStr (quote ''bool'' @ '' object has no attribute '' @ quote ''lower''))]\<rparr>"
  let ?untitled = "\<lparr>status = 400, body = JObj [(''error'', JStr ''Title is required'')]\<rparr>"
  let ?vibe = "\<lparr>status = 200,
     body = JObj [(''vibe'', JStr ''A heartwarming story perfect for cozy reading.'')]\<rparr>"
  let ?emma = "Inr (JObj [(''title'', JStr ''Emma'')]) :: exn + json"
  let ?flag = "Inr (JObj [(''query'', JBool True)]) :: exn + json"
  let ?empty = "Inr (JObj []) :: exn + json"
  let ?romance = "Inr (JObj [(''description'', JStr ''A romance.'')]) :: exn + json"
  have failed: "fst (handle_analyze_mood online ?emma (after_calls 2)) = Inr ?limit"
    by (simp add: handle_analyze_mood_def online_def dict_get_def call_ext_def
          limited_service_def limited_analysis_def after_calls_def)
  have "status ?limit \<in> {404, 500, 503} \<longrightarrow> is_error_envelope (body ?limit)"
    using error_response_bodies
            [where r = ?limit and app = online and request_json = ?emma and s = "after_calls 2"]
          failed
    by blast
  then have a: "is_error_envelope
     (JObj [(''success'', JBool False), (''error'', JStr ''rate limit exceeded'')])"
    by simp
  have refused: "fst (handle_mood_search ?flag (after_calls 0)) = Inr ?refused"
    by (simp add: handle_mood_search_def dict_get_def get_ai_recommendations_def
          no_attribute_def)
  have "status ?refused = 500 \<longrightarrow> is_error_envelope (body ?refused)"
    using error_response_bodies
            [where r = ?refused and request_json = ?flag and s = "after_calls 0"]
          refused
    by blast
  then have b: "is_error_envelope
     (JObj [(''success'', JBool False),
            (''error'', JStr (quote ''bool'' @ '' object has no attribute '' @ quote ''lower''))])"
    by simp
  obtain r where r: "fst (handle_mood_tags online ?empty (after_calls 0)) = Inr r"
    and bad_request: "status r = 400"
    by (simp add: handle_mood_tags_def dict_get_def)
  have "status r = 400 \<longrightarrow> body r = JObj [(''error'', JStr ''Title is required'')]"
    using error_response_bodies
            [where r = r and app = online and request_json = ?empty and s = "after_calls 0"]
          r
    by blast
  with bad_request have "r = ?untitled"
    by (cases r) simp
  with r have c: "fst (handle_mood_tags online ?empty (after_calls 0)) = Inr ?untitled"
    by simp
  have d: "fst (handle_generate_note online ?romance (after_calls 0)) = Inr ?vibe"
    by (simp add: handle_generate_note_def generate_book_note_def description_note_def
          dict_get_def online_def lower_def lower_char_def)
  have e: "fst (handle_mood_tags online (Inr (JArr [])) (after_calls 0)) =
     Inl (Exception (quote ''list'' @ '' object has no attribute '' @ quote ''get''))"
    by (simp add: handle_mood_tags_def no_attribute_def)
  from failed a refused b c d e show ?thesis by blast
qed

section \<open>Determinism\<close>

text \<open>
  Against C7 as it is stated: two calls of \<^verbatim>\<open>generate_book_note\<close> with the same
  arguments and the same availability of the analyzer, one after the other. The analyzer
  answers the first and fails on the second, and the two notes differ.
\<close>

theorem generate_book_note_depends_on_analyzer:
  "fst (generate_book_note (Some limited) (JStr ''A quiet village story.'') (JStr ''Emma'')
          (JStr ''Jane Austen'') (after_calls 0)) =
     Inr ''Readers call it tender and bittersweet.'' \<and>
   fst (generate_book_note (Some limited) (JStr ''A quiet village story.'') (JStr ''Emma'')
          (JStr ''Jane Austen'')
          (snd (generate_book_note (Some limited) (JStr ''A quiet village story.'')
                  (JStr ''Emma'') (JStr ''Jane Austen'') (after_calls 0)))) =
     Inr ''A delightful read for any quiet moment.'' \<and>
   fst (generate_book_note (Some limited) (JStr ''A quiet village story.'') (JStr ''Emma'')
          (JStr ''Jane Austen'') (after_calls 0)) \<noteq>
   fst (generate_book_note (Some limited) (JStr ''A quiet village story.'') (JStr ''Emma'')
          (JStr ''Jane Austen'')
          (snd (generate_book_note (Some limited) (JStr ''A quiet village story.'')
                  (JStr ''Emma'') (JStr ''Jane Austen'') (after_calls 0))))"
  by (simp add: generate_book_note_def call_ext_def limited_def limited_note_def
        after_calls_def description_note_def lower_def lower_char_def)

text \<open>
  C7, as amended. \<^verbatim>\<open>get_ai_recommendations\<close> is deterministic and pure: its result is
  the same in every world, and it leaves the world as it was. So is
  \<^verbatim>\<open>generate_book_note\<close> when the analyzer is not available or the title or the author
  is empty. When the analyzer is consulted, the result is the analyzer's text if its call
  returns and the local heuristic's result if it raises; so two calls with equal
  arguments return equal results provided the analyzer gives both the same outcome, which
  the arguments do not determine.
\<close>

theorem generate_book_note_deterministic:
  "fst (get_ai_recommendations query s1) = fst (get_ai_recommendations query s2) \<and>
   snd (get_ai_recommendations query s1) = s1 \<and>
   (mood_analysis = None \<or> \<not> truthy title \<or> \<not> truthy author \<longrightarrow>
      fst (generate_book_note mood_analysis description title author s1) =
      fst (generate_book_note mood_analysis description title author s2) \<and>
      snd (generate_book_note mood_analysis description title author s1) = s1) \<and>
   (mood_analysis = Some m \<and> truthy title \<and> truthy author \<longrightarrow>
      fst (generate_book_note mood_analysis description title author s1) =
        (case fst (generate_enhanced_book_note m description title author (ext s1)) of
           Inr enhanced \<Rightarrow> Inr enhanced
         | Inl e \<Rightarrow> description_note description)) \<and>
   (mood_analysis = Some m \<and> truthy title \<and> truthy author \<and>
    fst (generate_enhanced_book_note m description title author (ext s1)) =
    fst (generate_enhanced_book_note m description title author (ext s2)) \<longrightarrow>
      fst (generate_book_note mood_analysis description title author s1) =
      fst (generate_book_note mood_analysis description title author s2))"
proof -
  have called: "fst (generate_book_note (Some m) description title author s) =
        (case fst (generate_enhanced_book_note m description title author (ext s)) of
           Inr enhanced \<Rightarrow> Inr enhanced
         | Inl e \<Rightarrow> description_note description)"
    if "truthy title" and "truthy author" for s :: "'a world"
    using that
    by (simp add: generate_book_note_def call_ext_def split: prod.splits sum.splits)
  show ?thesis
  proof (intro conjI impI)
    show "fst (get_ai_recommendations query s1) = fst (get_ai_recommendations query s2)"
      using get_ai_recommendations_pure [of query s1 s2] by simp
    show "snd (get_ai_recommendations query s1) = s1"
      using get_ai_recommendations_pure [of query s1 s2] by simp
  next
    assume absent: "mood_analysis = None \<or> \<not> truthy title \<or> \<not> truthy author"
    then show "fst (generate_book_note mood_analysis description title author s1) =
        fst (generate_book_note mood_analysis description title author s2)"
      by (simp add: generate_book_note_not_called)
    from absent show "snd (generate_book_note mood_analysis description title author s1) = s1"
      by (simp add: generate_book_note_not_called)
  next
    assume "mood_analysis = Some m \<and> truthy title \<and> truthy author"
    then show "fst (generate_book_note mood_analysis description title author s1) =
        (case fst (generate_enhanced_book_note m description title author (ext s1)) of
           Inr enhanced \<Rightarrow> Inr enhanced
         | Inl e \<Rightarrow> description_note description)"
      by (simp add: called)
  next
    assume "mood_analysis = Some m \<and> truthy title \<and> truthy author \<and>
      fst (generate_enhanced_book_note m description title author (ext s1)) =
      fst (generate_enhanced_book_note m description title author (ext s2))"
    then show "fst (generate_book_note mood_analysis description title author s1) =
        fst (generate_book_note mood_analysis description title author s2)"
      by (simp add: called)
  qed
qed

theorem generate_book_note_deterministic_witness:
  "fst (get_ai_recommendations (JStr ''an uplifting tale'') (after_calls 0)) =
   fst (get_ai_recommendations (JStr ''an uplifting tale'') (after_calls 5)) \<and>
   snd (get_ai_recommendations (JStr ''an uplifting tale'') (after_calls 5)) = after_calls 5 \<and>
   fst (generate_book_note (None :: nat ai_service_enhanced option)
          (JStr ''A romance in winter.'') (JStr ''Persuasion'') (JStr ''Jane Austen'')
          (after_calls 0)) =
   fst (generate_book_note None (JStr ''A romance in winter.'') (JStr ''Persuasion'')
          (JStr ''Jane Austen'') (after_calls 5)) \<and>
   snd (generate_book_note (None :: nat ai_service_enhanced option)
          (JStr ''A romance in winter.'') (JStr ''Persuasion'') (JStr ''Jane Austen'')
          (after_calls 0)) =
     after_calls 0 \<and>
   fst (generate_book_note (Some limited) (JStr ''A romance in winter.'') (JStr ''Persuasion'')
          (JStr ''Jane Austen'') (after_calls 0)) =
     Inr ''Readers call it tender and bittersweet.'' \<and>
   fst (generate_book_note (Some limited) (JStr ''A romance in winter.'') (JStr ''Persuasion'')
          (JStr ''Jane Austen'') (after_calls 2)) =
     Inr ''A heartwarming story perfect for cozy reading.'' \<and>
   fst (generate_book_note (Some limited) (JStr ''A romance in winter.'') (JStr ''Persuasion'')
          (JStr ''Jane Austen'') (after_calls 2)) =
   fst (generate_book_note (Some limited) (JStr ''A romance in winter.'') (JStr ''Persuasion'')
          (JStr ''Jane Austen'') (after_calls 3))"
proof -
  let ?d = "JStr ''A romance in winter.''"
  let ?t = "JStr ''Persuasion''"
  let ?a = "JStr ''Jane Austen''"
  let ?q = "JStr ''an uplifting tale''"
  have q1: "fst (get_ai_recommendations ?q (after_calls 0)) =
            fst (get_ai_recommendations ?q (after_calls 5))"
    using generate_book_note_deterministic
            [where query = ?q and ?s1.0 = "after_calls 0" and ?s2.0 = "after_calls 5"]
    by blast
  have q2: "snd (get_ai_recommendations ?q (after_calls 5)) = after_calls 5"
    using generate_book_note_deterministic
            [where query = ?q and ?s1.0 = "after_calls 5" and ?s2.0 = "after_calls 5"]
    by blast
  have absent: "(None :: nat ai_service_enhanced option) = None \<or> \<not> truthy ?t \<or> \<not> truthy ?a"
    by simp
  have a: "fst (generate_book_note (None :: nat ai_service_enhanced option) ?d ?t ?a
                  (after_calls 0)) =
      fst (generate_book_note None ?d ?t ?a (after_calls 5)) \<and>
      snd (generate_book_note (None :: nat ai_service_enhanced option) ?d ?t ?a
             (after_calls 0)) = after_calls 0"
    using generate_book_note_deterministic
            [where mood_analysis = "None :: nat ai_service_enhanced option"
               and title = ?t and author = ?a and description = ?d
               and ?s1.0 = "after_calls 0" and ?s2.0 = "after_calls 5"]
          absent
    by blast
  have called: "Some limited = Some limited \<and> truthy ?t \<and> truthy ?a"
    by simp
  have phrase: "description_note ?d = Inr ''A heartwarming story perfect for cozy reading.''"
    by (simp add: description_note_def lower_def lower_char_def)
  have answered: "fst (generate_enhanced_book_note limited ?d ?t ?a (ext (after_calls 0))) =
     Inr ''Readers call it tender and bittersweet.''"
    and limit: "fst (generate_enhanced_book_note limited ?d ?t ?a (ext (after_calls 2))) =
     Inl (Exception ''rate limit exceeded'')"
    by (simp_all add: limited_def limited_note_def after_calls_def)
  have "fst (generate_book_note (Some limited) ?d ?t ?a (after_calls 0)) =
        (case fst (generate_enhanced_book_note limited ?d ?t ?a (ext (after_calls 0))) of
           Inr enhanced \<Rightarrow> Inr enhanced
         | Inl e \<Rightarrow> description_note ?d)"
    using generate_book_note_deterministic
            [where mood_analysis = "Some limited" and m = limited
               and title = ?t and author = ?a and description = ?d
               and ?s1.0 = "after_calls 0"]
          called
    by blast
  with answered have b: "fst (generate_book_note (Some limited) ?d ?t ?a (after_calls 0)) =
     Inr ''Readers call it tender and bittersweet.''"
    by simp
  have "fst (generate_book_note (Some limited) ?d ?t ?a (after_calls 2)) =
        (case fst (generate_enhanced_book_note limited ?d ?t ?a (ext (after_calls 2))) of
           Inr enhanced \<Rightarrow> Inr enhanced
         | Inl e \<Rightarrow> description_note ?d)"
    using generate_book_note_deterministic
            [where mood_analysis = "Some limited" and m = limited
               and title = ?t and author = ?a and description = ?d
               and ?s1.0 = "after_calls 2"]
          called
    by blast
  with limit phrase have c: "fst (generate_book_note (Some limited) ?d ?t ?a (after_calls 2)) =
     Inr ''A heartwarming story perfect for cozy reading.''"
    by simp
  have same: "fst (generate_enhanced_book_note limited ?d ?t ?a (ext (after_calls 2))) =
              fst (generate_enhanced_book_note limited ?d ?t ?a (ext (after_calls 3)))"
    by (simp add: limited_def limited_note_def after_calls_def)
  have d: "fst (generate_book_note (Some limited) ?d ?t ?a (after_calls 2)) =
           fst (generate_book_note (Some limited) ?d ?t ?a (after_calls 3))"
    using generate_book_note_deterministic
            [where mood_analysis = "Some limited" and m = limited
               and title = ?t and author = ?a and description = ?d
               and ?s1.0 = "after_calls 2" and ?s2.0 = "after_calls 3"]
          same called
    by blast
  from q1 q2 a b c d show ?thesis by blast
qed

end
